theory Spec2Isabelle
  imports Main
begin

section \<open>JavaScript values\<close>

text \<open>
  The values the node handles: parameters supplied by the host, the fields of an item,
  the positional parameters handed to the driver and the records the node returns.
  A number is an integer of magnitude below \<open>2^53\<close>: JavaScript holds these exactly and
  prints them in decimal; fractions, \<open>NaN\<close>, the infinities and larger numbers are outside the
  model. A string is the list of its UTF-16 code units, each below 256 (the type \<open>char\<close> has
  256 values), so that the length and the indices of a string are those JavaScript counts.
  An object is the list of its own enumerable properties in enumeration order (the array
  indices first, in ascending order, then the other keys in the order of their creation);
  its keys are distinct.
\<close>

datatype jsval =
    JUndefined
  | JNull
  | JBool bool
  | JNum int
  | JStr string
  | JArr "jsval list"
  | JObj "(string \<times> jsval) list"

type_synonym jsobj = "(string \<times> jsval) list"

text \<open>A thrown \<open>Error\<close>: its \<open>name\<close>, \<open>message\<close> and \<open>code\<close> properties.\<close>

datatype js_error = JsError (err_name: string) (err_message: string) (err_code: jsval)

text \<open>\<open>new Error(msg)\<close>: no \<open>code\<close> property.\<close>

definition new_Error :: "string \<Rightarrow> js_error" where
  "new_Error msg = JsError ''Error'' msg JUndefined"

text \<open>\<open>Error.prototype.toString\<close>.\<close>

definition error_toString :: "js_error \<Rightarrow> string" where
  "error_toString e =
     (if err_name e = [] then err_message e
      else if err_message e = [] then err_name e
      else err_name e @ '': '' @ err_message e)"

text \<open>Truthiness, as \<open>if (v)\<close>, \<open>!v\<close>, \<open>v || d\<close> and \<open>c ? a : b\<close> test it.\<close>

fun truthy :: "jsval \<Rightarrow> bool" where
  "truthy JUndefined = False"
| "truthy JNull = False"
| "truthy (JBool b) = b"
| "truthy (JNum n) = (n \<noteq> 0)"
| "truthy (JStr s) = (s \<noteq> [])"
| "truthy (JArr xs) = True"
| "truthy (JObj kvs) = True"

text \<open>\<open>a || b\<close> and \<open>a ?? b\<close> on values.\<close>

definition js_or :: "jsval \<Rightarrow> jsval \<Rightarrow> jsval" where
  "js_or a b = (if truthy a then a else b)"

fun nullish :: "jsval \<Rightarrow> bool" where
  "nullish JUndefined = True"
| "nullish JNull = True"
| "nullish v = False"

definition js_coalesce :: "jsval \<Rightarrow> jsval \<Rightarrow> jsval" where
  "js_coalesce a b = (if nullish a then b else a)"

text \<open>
  What a property read \<open>v.k\<close> gives on a value that is neither \<open>null\<close> nor \<open>undefined\<close>: an
  own property of an object, \<open>undefined\<close> otherwise. It is used where the source has
  made sure of that: after \<open>!credentials ||\<close>, behind \<open>?.\<close>, and on \<open>data\<close> once \<open>data.host\<close>
  has been read.
\<close>

fun get_prop :: "jsval \<Rightarrow> string \<Rightarrow> jsval" where
  "get_prop (JObj kvs) k = (case map_of kvs k of Some v \<Rightarrow> v | None \<Rightarrow> JUndefined)"
| "get_prop v k = JUndefined"

text \<open>
  The property read \<open>v.k\<close> on any value: on \<open>null\<close> and \<open>undefined\<close> it throws a TypeError.
\<close>

definition read_prop :: "jsval \<Rightarrow> string \<Rightarrow> js_error + jsval" where
  "read_prop v k =
     (if nullish v
      then Inl (JsError ''TypeError''
                  (''Cannot read properties of '' @ (if v = JNull then ''null'' else ''undefined'')
                   @ '' (reading '' @ [CHR 0x27] @ k @ [CHR 0x27] @ '')'') JUndefined)
      else Inr (get_prop v k))"

text \<open>Optional chaining \<open>v?.k\<close>.\<close>

definition get_prop_opt :: "jsval \<Rightarrow> string \<Rightarrow> jsval" where
  "get_prop_opt v k = (if nullish v then JUndefined else get_prop v k)"

subsection \<open>Strings\<close>

definition digit_char :: "nat \<Rightarrow> char" where
  "digit_char d = ''0123456789'' ! d"

function show_nat :: "nat \<Rightarrow> string" where
  "show_nat n = (if n < 10 then [digit_char n] else show_nat (n div 10) @ [digit_char (n mod 10)])"
  by pat_completeness auto
termination
  by (relation "measure id") auto

declare show_nat.simps [simp del]

definition show_int :: "int \<Rightarrow> string" where
  "show_int i = (if i < 0 then CHR ''-'' # show_nat (nat (- i)) else show_nat (nat i))"

text \<open>\<open>Array.prototype.join\<close> on strings.\<close>

fun join :: "string \<Rightarrow> string list \<Rightarrow> string" where
  "join sep [] = []"
| "join sep [x] = x"
| "join sep (x # y # ys) = x @ sep @ join sep (y # ys)"

text \<open>
  String conversion, as a template literal \<open>`${v}`\<close> performs it. An array joins its
  elements with a comma, \<open>null\<close> and \<open>undefined\<close> elements giving the empty string. A number
  is printed in decimal, which is what JavaScript prints below \<open>10^21\<close>.
\<close>

fun to_str :: "jsval \<Rightarrow> string" where
  "to_str JUndefined = ''undefined''"
| "to_str JNull = ''null''"
| "to_str (JBool b) = (if b then ''true'' else ''false'')"
| "to_str (JNum n) = show_int n"
| "to_str (JStr s) = s"
| "to_str (JArr xs) = join '','' (map (\<lambda>x. if nullish x then [] else to_str x) xs)"
| "to_str (JObj kvs) = ''[object Object]''"

text \<open>\<open>s.split(",")\<close>: the pieces between the separators, empty pieces kept.\<close>

fun split_on :: "char \<Rightarrow> string \<Rightarrow> string list" where
  "split_on c [] = [[]]"
| "split_on c (x # xs) =
     (if x = c then [] # split_on c xs
      else (case split_on c xs of [] \<Rightarrow> [[x]] | y # ys \<Rightarrow> (x # y) # ys))"

text \<open>
  \<open>s.trim()\<close> removes the white space and the line terminators at both ends. Among the code
  units below 256 these are the tab, the line feed, the vertical tab, the form feed, the
  carriage return, the space and the no-break space.
\<close>

definition is_space :: "char \<Rightarrow> bool" where
  "is_space c = (c \<in> set [CHR 0x09, CHR 0x0A, CHR 0x0B, CHR 0x0C, CHR 0x0D, CHR 0x20, CHR 0xA0])"

definition trim :: "string \<Rightarrow> string" where
  "trim s = rev (dropWhile is_space (rev (dropWhile is_space s)))"

text \<open>
  \<open>str.split(",").map((p) => p.trim())\<close>, for the variable named \<open>name\<close> in the source. The
  source calls it on a truthy value only; on a value that is not a string, \<open>split\<close> is not a
  function and the call throws a TypeError that names the variable.
\<close>

definition split_params :: "string \<Rightarrow> jsval \<Rightarrow> js_error + jsval list" where
  "split_params name v =
     (case v of
        JStr s \<Rightarrow> Inr (map (\<lambda>p. JStr (trim p)) (split_on CHR '','' s))
      | _ \<Rightarrow> Inl (JsError ''TypeError'' (name @ ''.split is not a function'') JUndefined))"

subsection \<open>Objects\<close>

text \<open>
  An array index is a key that is the decimal numeral, without leading zeros, of a number
  below \<open>2^32 - 1\<close>. JavaScript enumerates these keys first, in ascending order.
\<close>

definition is_digit :: "char \<Rightarrow> bool" where
  "is_digit c = (c \<in> set ''0123456789'')"

definition index_value :: "string \<Rightarrow> nat" where
  "index_value s = foldl (\<lambda>n c. 10 * n + (of_char c - 48)) 0 s"

definition is_array_index :: "string \<Rightarrow> bool" where
  "is_array_index s =
     (s \<noteq> [] \<and> list_all is_digit s \<and> (s = ''0'' \<or> hd s \<noteq> CHR ''0'') \<and> index_value s < 4294967295)"

fun replace_prop :: "string \<Rightarrow> jsval \<Rightarrow> jsobj \<Rightarrow> jsobj" where
  "replace_prop k v [] = []"
| "replace_prop k v ((k', v') # kvs) =
     (if k' = k then (k, v) # kvs else (k', v') # replace_prop k v kvs)"

fun insert_index :: "string \<Rightarrow> jsval \<Rightarrow> jsobj \<Rightarrow> jsobj" where
  "insert_index k v [] = [(k, v)]"
| "insert_index k v ((k', v') # kvs) =
     (if is_array_index k' \<and> index_value k' < index_value k then (k', v') # insert_index k v kvs
      else (k, v) # (k', v') # kvs)"

text \<open>
  Writing a property: an existing key keeps its place and takes the new value; a new key
  that is an array index goes to its place among the indices; any other new key goes last.
\<close>

definition set_prop :: "string \<Rightarrow> jsval \<Rightarrow> jsobj \<Rightarrow> jsobj" where
  "set_prop k v obj =
     (if map_of obj k \<noteq> None then replace_prop k v obj
      else if is_array_index k then insert_index k v obj
      else obj @ [(k, v)])"

text \<open>The object literal \<open>{...base, k1: v1, ..., kn: vn}\<close>, also \<open>{...a, ...b}\<close>.\<close>

definition spread :: "jsobj \<Rightarrow> jsobj \<Rightarrow> jsobj" where
  "spread base props = foldl (\<lambda>obj (k, v). set_prop k v obj) base props"

text \<open>
  \<open>Object.keys\<close> and \<open>Object.values\<close>: the properties of an object, the indices and
  elements of an array, the indices and characters of a string, nothing for a number or
  a boolean, a TypeError for \<open>null\<close> and \<open>undefined\<close>.
\<close>

definition null_to_object :: js_error where
  "null_to_object = JsError ''TypeError'' ''Cannot convert undefined or null to object'' JUndefined"

fun object_keys :: "jsval \<Rightarrow> js_error + string list" where
  "object_keys JUndefined = Inl null_to_object"
| "object_keys JNull = Inl null_to_object"
| "object_keys (JObj kvs) = Inr (map fst kvs)"
| "object_keys (JArr xs) = Inr (map show_nat [0..<length xs])"
| "object_keys (JStr s) = Inr (map show_nat [0..<length s])"
| "object_keys v = Inr []"

fun object_values :: "jsval \<Rightarrow> js_error + jsval list" where
  "object_values JUndefined = Inl null_to_object"
| "object_values JNull = Inl null_to_object"
| "object_values (JObj kvs) = Inr (map snd kvs)"
| "object_values (JArr xs) = Inr xs"
| "object_values (JStr s) = Inr (map (\<lambda>c. JStr [c]) s)"
| "object_values v = Inr []"

section \<open>The host and the driver\<close>

text \<open>An item of the batch: the node reads its \<open>json\<close> property only.\<close>

datatype item = Item (json: jsobj)

text \<open>
  What \<open>pool.execute\<close> and \<open>connection.execute\<close> resolve to: the pair \<open>[rows, fields]\<close>.
  \<open>rows\<close> is an array of row objects for a statement that returns rows, and the driver's
  result header otherwise, with its properties \<open>fieldCount\<close>, \<open>affectedRows\<close>, \<open>insertId\<close>,
  \<open>info\<close>, \<open>serverStatus\<close>, \<open>warningStatus\<close> and \<open>changedRows\<close>. \<open>fields\<close> is the field
  metadata, or \<open>undefined\<close>.
\<close>

datatype exec_rows =
    RowSet "jsobj list"
  | ResultHeader (hdr_fieldCount: int) (hdr_affectedRows: int) (hdr_insertId: int) (hdr_info: string)
      (hdr_serverStatus: int) (hdr_warningStatus: int) (hdr_changedRows: int)

datatype field_packet = FieldPacket (fld_name: string) (fld_type: int) (fld_table: string)

type_synonym exec_result = "exec_rows \<times> field_packet list option"

text \<open>A statement handed to the driver: the text and the positional parameters.\<close>

type_synonym call = "jsval \<times> jsval list"

text \<open>
  The collaborators of the node, which the repository does not implement: the host's
  \<open>this.settings\<close>, \<open>this.getCredentials\<close> and \<open>this.getNodeParameter\<close>, the built-in
  \<open>JSON.parse\<close>, and the driver's \<open>pool.execute\<close> and \<open>pool.end\<close>. Each may throw. The
  driver answers from the statements it has received so far.
\<close>

record env =
  settings :: jsval
  getCredentials :: "string \<Rightarrow> js_error + jsval"
  getNodeParameter :: "string \<Rightarrow> js_error + jsval"
  json_parse :: "string \<Rightarrow> js_error + jsval"
  drv_execute :: "call list \<Rightarrow> jsval \<Rightarrow> jsval list \<Rightarrow> js_error + exec_result"
  drv_end :: "call list \<Rightarrow> js_error option"

text \<open>
  The state the node changes: the statements sent to the pool, oldest first; the logger's
  lines (level and message); the local array \<open>results\<close>; the configuration of the pool
  once \<open>mysql.createPool\<close> has run; whether \<open>pool.end()\<close> has been called.
\<close>

record world =
  calls :: "call list"
  logs :: "(string \<times> string) list"
  results :: "jsval list"
  pool :: "jsobj option"
  pool_ended :: bool

definition logger :: "string \<Rightarrow> string \<Rightarrow> world \<Rightarrow> world" where
  "logger level msg w = w\<lparr>logs := logs w @ [(level, msg)]\<rparr>"

text \<open>
  \<open>results.push({ json: r })\<close>: the array \<open>results\<close> is kept as the list of the \<open>json\<close> objects
  of its records.
\<close>

definition results_push :: "jsval \<Rightarrow> world \<Rightarrow> world" where
  "results_push r w = w\<lparr>results := results w @ [r]\<rparr>"

definition pool_execute :: "env \<Rightarrow> jsval \<Rightarrow> jsval list \<Rightarrow> world \<Rightarrow> (js_error + exec_result) \<times> world" where
  "pool_execute env queryText queryParams w =
     (drv_execute env (calls w) queryText queryParams, w\<lparr>calls := calls w @ [(queryText, queryParams)]\<rparr>)"

definition pool_end :: "env \<Rightarrow> world \<Rightarrow> js_error option \<times> world" where
  "pool_end env w = (drv_end env (calls w), w\<lparr>pool_ended := True\<rparr>)"

definition createPool :: "jsobj \<Rightarrow> world \<Rightarrow> world" where
  "createPool config w = w\<lparr>pool := Some config\<rparr>"

subsection \<open>Reading a result\<close>

text \<open>\<open>rows.affectedRows\<close>, \<open>rows.insertId\<close>, \<open>rows.changedRows\<close>, \<open>rows.length\<close>.\<close>

fun rows_affectedRows :: "exec_rows \<Rightarrow> jsval" where
  "rows_affectedRows (ResultHeader fc a i msg ss ws c) = JNum a"
| "rows_affectedRows (RowSet rs) = JUndefined"

fun rows_insertId :: "exec_rows \<Rightarrow> jsval" where
  "rows_insertId (ResultHeader fc a i msg ss ws c) = JNum i"
| "rows_insertId (RowSet rs) = JUndefined"

fun rows_changedRows :: "exec_rows \<Rightarrow> jsval" where
  "rows_changedRows (ResultHeader fc a i msg ss ws c) = JNum c"
| "rows_changedRows (RowSet rs) = JUndefined"

fun rows_length :: "exec_rows \<Rightarrow> jsval" where
  "rows_length (RowSet rs) = JNum (int (length rs))"
| "rows_length (ResultHeader fc a i msg ss ws c) = JUndefined"

text \<open>\<open>rows\<close> itself, as a value stored in a record.\<close>

fun rows_value :: "exec_rows \<Rightarrow> jsval" where
  "rows_value (RowSet rs) = JArr (map JObj rs)"
| "rows_value (ResultHeader fc a i msg ss ws c) =
     JObj [(''fieldCount'', JNum fc), (''affectedRows'', JNum a), (''insertId'', JNum i),
           (''info'', JStr msg), (''serverStatus'', JNum ss), (''warningStatus'', JNum ws),
           (''changedRows'', JNum c)]"

text \<open>\<open>Array.isArray(rows)\<close>.\<close>

fun isArray :: "exec_rows \<Rightarrow> bool" where
  "isArray (RowSet rs) = True"
| "isArray (ResultHeader fc a i msg ss ws c) = False"

text \<open>\<open>v > 0\<close> on what \<open>rows.affectedRows\<close> and \<open>rows.length\<close> give: a number or \<open>undefined\<close>.\<close>

fun js_gt0 :: "jsval \<Rightarrow> bool" where
  "js_gt0 (JNum n) = (0 < n)"
| "js_gt0 v = False"

text \<open>\<open>fields?.map((f) => ({name: f.name, type: f.type, table: f.table}))\<close>.\<close>

definition fields_value :: "field_packet list option \<Rightarrow> jsval" where
  "fields_value flds =
     (case flds of
        None \<Rightarrow> JUndefined
      | Some fs \<Rightarrow> JArr (map (\<lambda>f. JObj [(''name'', JStr (fld_name f)), (''type'', JNum (fld_type f)),
                                       (''table'', JStr (fld_table f))]) fs))"

section \<open>The executor\<close>

subsection \<open>Statement texts\<close>

text \<open>The template literals and concatenations of \<open>execute\<close> that build a statement.\<close>

definition select_text :: "jsval \<Rightarrow> jsval \<Rightarrow> jsval \<Rightarrow> jsval \<Rightarrow> jsval \<Rightarrow> string" where
  "select_text columns table wher orderBy limit =
     ''SELECT '' @ to_str columns @ '' FROM `'' @ to_str table @ ''`''
     @ (if truthy wher then '' WHERE '' @ to_str wher else [])
     @ (if truthy orderBy then '' ORDER BY '' @ to_str orderBy else [])
     @ (if truthy limit then '' LIMIT '' @ to_str limit else [])"

definition insert_text :: "jsval \<Rightarrow> string list \<Rightarrow> jsval list \<Rightarrow> string" where
  "insert_text table columns vals =
     ''INSERT INTO `'' @ to_str table @ ''` (`'' @ join ''`, `'' columns @ ''`) VALUES (''
     @ join '', '' (map (\<lambda>v. ''?'') vals) @ '')''"

definition fetch_inserted_text :: "jsval \<Rightarrow> jsval \<Rightarrow> string" where
  "fetch_inserted_text returnFields table =
     ''SELECT '' @ to_str returnFields @ '' FROM `'' @ to_str table @ ''` WHERE id = ?''"

definition update_text :: "jsval \<Rightarrow> string list \<Rightarrow> jsval \<Rightarrow> string" where
  "update_text table columns wher =
     ''UPDATE `'' @ to_str table @ ''` SET '' @ join '', '' (map (\<lambda>col. ''`'' @ col @ ''` = ?'') columns)
     @ '' WHERE '' @ to_str wher"

definition fetch_updated_text :: "jsval \<Rightarrow> jsval \<Rightarrow> jsval \<Rightarrow> string" where
  "fetch_updated_text returnFields table wher =
     ''SELECT '' @ to_str returnFields @ '' FROM `'' @ to_str table @ ''` WHERE '' @ to_str wher"

definition delete_text :: "jsval \<Rightarrow> jsval \<Rightarrow> string" where
  "delete_text table wher = ''DELETE FROM `'' @ to_str table @ ''` WHERE '' @ to_str wher"

text \<open>\<open>typeof dataStr === "string" ? JSON.parse(dataStr) : dataStr\<close>, with its \<open>catch\<close>.\<close>

definition parse_data :: "env \<Rightarrow> jsval \<Rightarrow> js_error + jsval" where
  "parse_data env dataStr =
     (case dataStr of
        JStr s \<Rightarrow> (case json_parse env s of
                     Inl e \<Rightarrow> Inl (new_Error (''Invalid JSON data: '' @ err_message e))
                   | Inr d \<Rightarrow> Inr d)
      | _ \<Rightarrow> Inr dataStr)"

text \<open>\<open>str ? str.split(",").map((p) => p.trim()) : []\<close>, for the variable named \<open>name\<close>.\<close>

definition params_of :: "string \<Rightarrow> jsval \<Rightarrow> js_error + jsval list" where
  "params_of name str = (if truthy str then split_params name str else Inr [])"

subsection \<open>Sequencing\<close>

text \<open>
  \<open>const x = await f(...)\<close> followed by the rest of the block: a throw ends the block
  with the state reached, a value is bound and the block goes on. \<open>await\<close> is for a call
  that leaves the state alone, \<open>await_io\<close> for one that changes it.
\<close>

definition await :: "js_error + 'a \<Rightarrow> world \<Rightarrow> ('a \<Rightarrow> (js_error + 'b) \<times> world) \<Rightarrow> (js_error + 'b) \<times> world" where
  "await r w rest = (case r of Inl e \<Rightarrow> (Inl e, w) | Inr v \<Rightarrow> rest v)"

definition await_io :: "(js_error + 'a) \<times> world \<Rightarrow> ('a \<Rightarrow> world \<Rightarrow> (js_error + 'b) \<times> world) \<Rightarrow> (js_error + 'b) \<times> world" where
  "await_io rw rest = (case fst rw of Inl e \<Rightarrow> (Inl e, snd rw) | Inr v \<Rightarrow> rest v (snd rw))"

subsection \<open>The cases of the switch\<close>

text \<open>
  Each case of \<open>switch (operation)\<close>, from its first statement to its \<open>break\<close>. \<open>Inl\<close> is
  a throw inside the case; the state is the one reached at the throw.
\<close>

definition case_executeQuery :: "env \<Rightarrow> item \<Rightarrow> world \<Rightarrow> (js_error + unit) \<times> world" where
  "case_executeQuery env item w =
     await (getNodeParameter env ''query'') w (\<lambda>queryText.
     await (getNodeParameter env ''queryParams'') w (\<lambda>paramsStr.
     await (params_of ''paramsStr'' paramsStr) w (\<lambda>queryParams.
     await_io (pool_execute env queryText queryParams w) (\<lambda>(rows, flds) w1.
       (Inr (), results_push (JObj (spread (json item)
          [(''rows'', if isArray rows then rows_value rows else JArr [rows_value rows]),
           (''rowCount'', if isArray rows then rows_length rows else JNum 1),
           (''affectedRows'', rows_affectedRows rows),
           (''insertId'', rows_insertId rows),
           (''fields'', fields_value flds)])) w1)))))"

definition case_select :: "env \<Rightarrow> item \<Rightarrow> world \<Rightarrow> (js_error + unit) \<times> world" where
  "case_select env item w =
     await (getNodeParameter env ''table'') w (\<lambda>table.
     await (getNodeParameter env ''columns'') w (\<lambda>columns0.
     await (getNodeParameter env ''where'') w (\<lambda>wher.
     await (getNodeParameter env ''whereParams'') w (\<lambda>whereParamsStr.
     await (getNodeParameter env ''returnAll'') w (\<lambda>returnAll.
     await (if truthy returnAll then Inr JNull else getNodeParameter env ''limit'') w (\<lambda>limit.
     await (getNodeParameter env ''orderBy'') w (\<lambda>orderBy.
     await (if truthy wher then params_of ''whereParamsStr'' whereParamsStr else Inr []) w (\<lambda>queryParams.
     await_io (pool_execute env
                 (JStr (select_text (js_or columns0 (JStr ''*'')) table wher orderBy limit))
                 queryParams w) (\<lambda>(rows, flds) w1.
       (Inr (), results_push (JObj (spread (json item)
          [(''rows'', rows_value rows), (''rowCount'', rows_length rows)])) w1))))))))))"

text \<open>The \<open>try\<close>/\<open>catch\<close> that fetches the inserted row: a failure is logged, not thrown.\<close>

definition fetch_inserted :: "env \<Rightarrow> jsval \<Rightarrow> jsval \<Rightarrow> exec_rows \<Rightarrow> jsobj \<Rightarrow> world \<Rightarrow> jsobj \<times> world" where
  "fetch_inserted env returnFields table insertResult insertedRow w =
     (case pool_execute env (JStr (fetch_inserted_text returnFields table))
             [rows_insertId insertResult] w of
        (Inr (RowSet (r # rs), flds), w1) \<Rightarrow> (spread insertedRow r, w1)
      | (Inr (rows, flds), w1) \<Rightarrow> (insertedRow, w1)
      | (Inl selectError, w1) \<Rightarrow> (insertedRow, logger ''warn'' ''Could not fetch inserted row'' w1))"

definition case_insert :: "env \<Rightarrow> item \<Rightarrow> world \<Rightarrow> (js_error + unit) \<times> world" where
  "case_insert env item w =
     await (getNodeParameter env ''table'') w (\<lambda>table.
     await (getNodeParameter env ''data'') w (\<lambda>dataStr.
     await (getNodeParameter env ''returnFields'') w (\<lambda>returnFields0.
     await (parse_data env dataStr) w (\<lambda>data.
     await (object_keys data) w (\<lambda>columns.
     await (object_values data) w (\<lambda>vals.
     await_io (pool_execute env (JStr (insert_text table columns vals)) vals w) (\<lambda>(insertResult, flds) w1.
       (let returnFields = js_or returnFields0 (JStr ''*'');
            insertedRow = [(''insertId'', rows_insertId insertResult),
                           (''affectedRows'', rows_affectedRows insertResult)];
            fetched =
              (if returnFields \<noteq> JStr ''*'' \<or> truthy (rows_insertId insertResult)
               then fetch_inserted env returnFields table insertResult insertedRow w1
               else (insertedRow, w1))
        in (Inr (), results_push (JObj (spread (json item)
              [(''inserted'', JObj (fst fetched)),
               (''rowCount'', rows_affectedRows insertResult)])) (snd fetched))))))))))"

text \<open>The \<open>try\<close>/\<open>catch\<close> that fetches the updated rows.\<close>

definition fetch_updated :: "env \<Rightarrow> jsval \<Rightarrow> jsval \<Rightarrow> jsval \<Rightarrow> jsval \<Rightarrow> world \<Rightarrow> jsval \<times> world" where
  "fetch_updated env returnFields table wher whereParamsStr w =
     (case params_of ''whereParamsStr'' whereParamsStr of
        Inl selectError \<Rightarrow> (JArr [], logger ''warn'' ''Could not fetch updated rows'' w)
      | Inr selectParams \<Rightarrow>
          (case pool_execute env (JStr (fetch_updated_text returnFields table wher)) selectParams w of
             (Inr (rows, flds), w1) \<Rightarrow> (rows_value rows, w1)
           | (Inl selectError, w1) \<Rightarrow> (JArr [], logger ''warn'' ''Could not fetch updated rows'' w1)))"

definition where_required_update :: string where
  "where_required_update = ''WHERE clause is required for UPDATE operation to prevent accidental updates''"

definition case_update :: "env \<Rightarrow> item \<Rightarrow> world \<Rightarrow> (js_error + unit) \<times> world" where
  "case_update env item w =
     await (getNodeParameter env ''table'') w (\<lambda>table.
     await (getNodeParameter env ''data'') w (\<lambda>dataStr.
     await (getNodeParameter env ''where'') w (\<lambda>wher.
     await (getNodeParameter env ''whereParams'') w (\<lambda>whereParamsStr.
     await (getNodeParameter env ''returnFields'') w (\<lambda>returnFields0.
     await (if \<not> truthy wher then Inl (new_Error where_required_update) else Inr ()) w (\<lambda>checked.
     await (parse_data env dataStr) w (\<lambda>data.
     await (object_keys data) w (\<lambda>columns.
     await (object_values data) w (\<lambda>vals.
     await (params_of ''whereParamsStr'' whereParamsStr) w (\<lambda>whereParams.
     await_io (pool_execute env (JStr (update_text table columns wher)) (vals @ whereParams) w)
       (\<lambda>(updateResult, flds) w1.
       (let returnFields = js_or returnFields0 (JStr ''*'');
            fetched =
              (if truthy wher \<and> js_gt0 (rows_affectedRows updateResult)
               then fetch_updated env returnFields table wher whereParamsStr w1
               else (JArr [], w1))
        in (Inr (), results_push (JObj (spread (json item)
              [(''updated'', fst fetched),
               (''rowCount'', rows_affectedRows updateResult),
               (''changedRows'', rows_changedRows updateResult)])) (snd fetched))))))))))))))"

definition where_required_delete :: string where
  "where_required_delete = ''WHERE clause is required for DELETE operation to prevent accidental deletion''"

definition case_delete :: "env \<Rightarrow> item \<Rightarrow> world \<Rightarrow> (js_error + unit) \<times> world" where
  "case_delete env item w =
     await (getNodeParameter env ''table'') w (\<lambda>table.
     await (getNodeParameter env ''where'') w (\<lambda>wher.
     await (getNodeParameter env ''whereParams'') w (\<lambda>whereParamsStr.
     await (if \<not> truthy wher then Inl (new_Error where_required_delete) else Inr ()) w (\<lambda>checked.
     await (params_of ''whereParamsStr'' whereParamsStr) w (\<lambda>queryParams.
     await_io (pool_execute env (JStr (delete_text table wher)) queryParams w) (\<lambda>(deleteResult, flds) w1.
       (Inr (), results_push (JObj (spread (json item)
          [(''deleted'', JBool True), (''rowCount'', rows_affectedRows deleteResult)])) w1)))))))"

subsection \<open>The loop over the items\<close>

text \<open>\<open>switch (operation)\<close>: the cases compare with \<open>===\<close>.\<close>

definition run_operation :: "env \<Rightarrow> jsval \<Rightarrow> item \<Rightarrow> world \<Rightarrow> (js_error + unit) \<times> world" where
  "run_operation env operation item w =
     (if operation = JStr ''executeQuery'' then case_executeQuery env item w
      else if operation = JStr ''select'' then case_select env item w
      else if operation = JStr ''insert'' then case_insert env item w
      else if operation = JStr ''update'' then case_update env item w
      else if operation = JStr ''delete'' then case_delete env item w
      else (Inl (new_Error (''Unknown operation: '' @ to_str operation)), w))"

text \<open>The record pushed by the \<open>catch\<close> of an item when continue-on-fail is set.\<close>

definition error_record :: "item \<Rightarrow> js_error \<Rightarrow> jsval" where
  "error_record item error =
     JObj (spread (json item)
       [(''error'', JBool True),
        (''errorMessage'', JStr (err_message error)),
        (''errorCode'', err_code error),
        (''errorDetails'', JStr (error_toString error))])"

text \<open>The body of \<open>for (const item of itemsToProcess)\<close>: the inner \<open>try\<close> and its \<open>catch\<close>.\<close>

definition process_item :: "env \<Rightarrow> jsval \<Rightarrow> jsval \<Rightarrow> item \<Rightarrow> world \<Rightarrow> (js_error + unit) \<times> world" where
  "process_item env continueOnFail operation item w =
     (case run_operation env operation item w of
        (Inr u, w1) \<Rightarrow> (Inr (), w1)
      | (Inl error, w1) \<Rightarrow>
          (if truthy continueOnFail then (Inr (), results_push (error_record item error) w1)
           else (Inl error, w1)))"

fun for_items :: "env \<Rightarrow> jsval \<Rightarrow> jsval \<Rightarrow> item list \<Rightarrow> world \<Rightarrow> (js_error + unit) \<times> world" where
  "for_items env continueOnFail operation [] w = (Inr (), w)"
| "for_items env continueOnFail operation (item # items) w =
     (case process_item env continueOnFail operation item w of
        (Inl error, w1) \<Rightarrow> (Inl error, w1)
      | (Inr u, w1) \<Rightarrow> for_items env continueOnFail operation items w1)"

subsection \<open>Credentials and the pool\<close>

definition credentials_required :: string where
  "credentials_required =
     ''MySQL credentials are required. Please select credentials in the Authentication field.''"

text \<open>
  The body of the \<open>try\<close> that reads the credentials; the result is the object handed to
  \<open>mysql.createPool\<close>.
\<close>

definition read_credentials :: "env \<Rightarrow> world \<Rightarrow> (js_error + jsobj) \<times> world" where
  "read_credentials env w =
     await (getCredentials env ''mysqlDb'') w (\<lambda>credentials.
       if \<not> truthy credentials \<or> \<not> truthy (get_prop credentials ''host'')
       then (Inl (new_Error credentials_required), w)
       else
         (Inr [(''host'', get_prop credentials ''host''),
               (''port'', js_or (get_prop credentials ''port'') (JNum 3306)),
               (''database'', get_prop credentials ''database''),
               (''user'', get_prop credentials ''user''),
               (''password'', get_prop credentials ''password''),
               (''ssl'', if truthy (js_or (get_prop credentials ''ssl'') (JBool False))
                         then JObj [(''rejectUnauthorized'', JBool False)] else JBool False),
               (''waitForConnections'', JBool True),
               (''connectionLimit'', JNum 10),
               (''queueLimit'', JNum 0),
               (''connectTimeout'',
                  js_coalesce (get_prop_opt (settings env) ''connectionTimeout'')
                    (js_coalesce (get_prop credentials ''connectionTimeout'') (JNum 10000)))],
          logger ''info'' ''Using MySQL credentials from authentication'' w))"

subsection \<open>\<open>execute\<close>\<close>

text \<open>
  \<open>inputData.main?.[0] || []\<close>: \<open>main\<close> is absent or an array of batches.
\<close>

definition input_items :: "item list list option \<Rightarrow> item list" where
  "input_items main = (case main of Some (items # others) \<Rightarrow> items | _ \<Rightarrow> [])"

text \<open>\<open>items.length > 0 ? items : [{ json: {} }]\<close>.\<close>

definition items_to_process :: "item list \<Rightarrow> item list" where
  "items_to_process items = (if length items > 0 then items else [Item []])"

text \<open>
  From \<open>mysql.createPool\<close> to the \<open>return\<close>: the loop inside \<open>try\<close>, and \<open>pool.end()\<close>
  in the \<open>finally\<close>. \<open>pool.end()\<close> runs whatever the loop did, and a throw of
  \<open>pool.end()\<close> itself replaces the outcome of the loop. \<open>Inr\<close> is the value
  \<open>[{ main: results }]\<close>.
\<close>

definition with_pool :: "env \<Rightarrow> jsval \<Rightarrow> jsval \<Rightarrow> jsobj \<Rightarrow> item list \<Rightarrow> world \<Rightarrow> (js_error + jsval) \<times> world" where
  "with_pool env continueOnFail operation config itemsToProcess w =
     (case for_items env continueOnFail operation itemsToProcess (createPool config w) of
        (outcome, w2) \<Rightarrow>
          (case pool_end env w2 of
             (Some error, w3) \<Rightarrow> (Inl error, w3)
           | (None, w3) \<Rightarrow>
               (case outcome of
                  Inl error \<Rightarrow> (Inl error, w3)
                | Inr u \<Rightarrow> (Inr (JArr [JObj [(''main'', JArr (results w3))]]), w3))))"

text \<open>The whole of \<open>execute\<close>. \<open>Inl\<close> is a rejection of the promise it returns.\<close>

definition execute :: "env \<Rightarrow> item list list option \<Rightarrow> world \<Rightarrow> (js_error + jsval) \<times> world" where
  "execute env main w0 =
     (let items = input_items main;
          itemsToProcess = items_to_process items;
          continueOnFail = js_coalesce (get_prop_opt (settings env) ''continueOnFail'') (JBool False);
          w = logger ''info'' ''[MySQL] Settings object:''
                (logger ''info'' (''[MySQL] continueOnFail setting: '' @ to_str continueOnFail)
                   (w0\<lparr>results := []\<rparr>))
      in case read_credentials env w of
           (Inl error, w1) \<Rightarrow> (Inl (new_Error (''Failed to get credentials: '' @ err_message error)), w1)
         | (Inr config, w1) \<Rightarrow>
             await (getNodeParameter env ''operation'') w1 (\<lambda>operation.
               with_pool env continueOnFail operation config itemsToProcess w1))"

section \<open>The credential test\<close>

text \<open>
  The driver as \<open>test\<close> uses it: \<open>mysql.createConnection\<close>, \<open>connection.execute\<close> and
  \<open>connection.end\<close>, the last answering by how many times it has been called before.
\<close>

record conn_driver =
  createConnection :: "jsobj \<Rightarrow> js_error option"
  conn_execute :: "string \<Rightarrow> js_error + exec_result"
  conn_end :: "nat \<Rightarrow> js_error option"

datatype conn_event = Connect jsobj | Execute string | End

record test_result =
  success :: bool
  message :: string

text \<open>\<open>data.port || 3306\<close> inside a template literal.\<close>

definition port_str :: "jsval \<Rightarrow> string" where
  "port_str data = to_str (js_or (get_prop data ''port'') (JNum 3306))"

text \<open>The outer \<open>catch\<close> of \<open>test\<close>: the message chosen by \<open>error.code\<close>.\<close>

definition classify_error :: "jsval \<Rightarrow> js_error \<Rightarrow> test_result" where
  "classify_error data error =
     (if err_code error = JStr ''ECONNREFUSED'' then
        \<lparr>success = False,
         message = ''Cannot connect to database server at '' @ to_str (get_prop data ''host'') @ '':''
                   @ port_str data @ ''. Connection refused.''\<rparr>
      else if err_code error = JStr ''ENOTFOUND'' then
        \<lparr>success = False,
         message = ''Cannot resolve host: '' @ to_str (get_prop data ''host'')
                   @ ''. Please check the hostname.''\<rparr>
      else if err_code error = JStr ''ETIMEDOUT'' then
        \<lparr>success = False,
         message = ''Connection timeout to '' @ to_str (get_prop data ''host'') @ '':'' @ port_str data
                   @ ''. Please check firewall and network settings.''\<rparr>
      else if err_code error = JStr ''ER_ACCESS_DENIED_ERROR'' then
        \<lparr>success = False, message = ''Authentication failed. Invalid username or password.''\<rparr>
      else if err_code error = JStr ''ER_BAD_DB_ERROR'' then
        \<lparr>success = False,
         message = ''Database '' @ [CHR 0x22] @ to_str (get_prop data ''database'') @ [CHR 0x22]
                   @ '' does not exist.''\<rparr>
      else if err_code error = JStr ''ER_DBACCESS_DENIED_ERROR'' then
        \<lparr>success = False,
         message = ''Authorization failed. User does not have access to this database.''\<rparr>
      else if err_code error = JStr ''PROTOCOL_CONNECTION_LOST'' then
        \<lparr>success = False,
         message = ''Connection lost to MySQL server. Please check server status.''\<rparr>
      else if err_code error = JStr ''ER_CON_COUNT_ERROR'' then
        \<lparr>success = False, message = ''Too many connections to MySQL server. Try again later.''\<rparr>
      else if err_code error = JStr ''ER_HOST_IS_BLOCKED'' then
        \<lparr>success = False,
         message = ''Host is blocked due to many connection errors. Contact your database administrator.''\<rparr>
      else
        \<lparr>success = False,
         message = ''Connection failed: ''
                   @ (if err_message error \<noteq> [] then err_message error else ''Unknown error'')\<rparr>)"

definition liveness_query :: string where
  "liveness_query = ''SELECT NOW() as current_time, VERSION() as version''"

text \<open>
  The inner \<open>try\<close> of \<open>test\<close>, entered once the connection is open, with its
  \<open>catch (queryError)\<close>, which ends the connection and throws again. The second component
  lists what was asked of the connection, in order.
\<close>

definition test_query :: "conn_driver \<Rightarrow> jsval \<Rightarrow> (js_error + test_result) \<times> conn_event list" where
  "test_query drv data =
     (case conn_execute drv liveness_query of
        Inl queryError \<Rightarrow>
          (case conn_end drv 0 of
             Some error \<Rightarrow> (Inl error, [Execute liveness_query, End])
           | None \<Rightarrow> (Inl queryError, [Execute liveness_query, End]))
      | Inr (rows, flds) \<Rightarrow>
          (case conn_end drv 0 of
             Some queryError \<Rightarrow>
               (case conn_end drv 1 of
                  Some error \<Rightarrow> (Inl error, [Execute liveness_query, End, End])
                | None \<Rightarrow> (Inl queryError, [Execute liveness_query, End, End]))
           | None \<Rightarrow>
               (case rows of
                  RowSet (r # rs) \<Rightarrow>
                    (Inr \<lparr>success = True,
                          message = ''Connected successfully to MySQL '' @ to_str (get_prop (JObj r) ''version'')
                                    @ '' at '' @ to_str (get_prop data ''host'') @ '':'' @ port_str data
                                    @ ''/'' @ to_str (get_prop data ''database'')\<rparr>,
                     [Execute liveness_query, End])
                | _ \<Rightarrow>
                    (case conn_end drv 1 of
                       Some queryError \<Rightarrow>
                         (case conn_end drv 2 of
                            Some error \<Rightarrow> (Inl error, [Execute liveness_query, End, End, End])
                          | None \<Rightarrow> (Inl queryError, [Execute liveness_query, End, End, End]))
                     | None \<Rightarrow>
                         (Inr \<lparr>success = True, message = ''Connection successful''\<rparr>,
                          [Execute liveness_query, End, End])))))"

definition connection_config :: "jsval \<Rightarrow> jsobj" where
  "connection_config data =
     [(''host'', get_prop data ''host''),
      (''port'', js_or (get_prop data ''port'') (JNum 3306)),
      (''database'', get_prop data ''database''),
      (''user'', get_prop data ''user''),
      (''password'', get_prop data ''password''),
      (''ssl'', if truthy (get_prop data ''ssl'')
                then JObj [(''rejectUnauthorized'', JBool False)] else JBool False),
      (''connectTimeout'', js_or (get_prop data ''connectionTimeout'') (JNum 10000))]"

text \<open>
  \<open>test(data)\<close>: the value the promise resolves to, or the error it rejects with, and what
  was asked of the driver. The first read, \<open>data.host\<close>, throws when \<open>data\<close> is \<open>null\<close> or
  \<open>undefined\<close>; it is outside the \<open>try\<close>.
\<close>

definition test :: "conn_driver \<Rightarrow> jsval \<Rightarrow> (js_error + test_result) \<times> conn_event list" where
  "test drv data =
     (case read_prop data ''host'' of
        Inl error \<Rightarrow> (Inl error, [])
      | Inr host \<Rightarrow>
          (if \<not> truthy host \<or> \<not> truthy (get_prop data ''database'')
              \<or> \<not> truthy (get_prop data ''user'') \<or> \<not> truthy (get_prop data ''password'')
           then (Inr \<lparr>success = False, message = ''Host, database, user, and password are required''\<rparr>, [])
           else
             (case createConnection drv (connection_config data) of
                Some error \<Rightarrow> (Inr (classify_error data error), [Connect (connection_config data)])
              | None \<Rightarrow>
                  (case test_query drv data of
                     (Inl error, events) \<Rightarrow>
                       (Inr (classify_error data error), Connect (connection_config data) # events)
                   | (Inr r, events) \<Rightarrow> (Inr r, Connect (connection_config data) # events)))))"

section \<open>Vocabulary of the properties\<close>

text \<open>The value a record holds under a key, if it is an object with that key.\<close>

fun get_field :: "jsval \<Rightarrow> string \<Rightarrow> jsval option" where
  "get_field (JObj kvs) k = map_of kvs k"
| "get_field v k = None"

text \<open>The names of the fields each operation adds to an item, and those of an error record.\<close>

definition success_fields :: "jsval \<Rightarrow> string list" where
  "success_fields operation =
     (if operation = JStr ''executeQuery'' then [''rows'', ''rowCount'', ''affectedRows'', ''insertId'', ''fields'']
      else if operation = JStr ''select'' then [''rows'', ''rowCount'']
      else if operation = JStr ''insert'' then [''inserted'', ''rowCount'']
      else if operation = JStr ''update'' then [''updated'', ''rowCount'', ''changedRows'']
      else if operation = JStr ''delete'' then [''deleted'', ''rowCount'']
      else [])"

definition error_fields :: "string list" where
  "error_fields = [''error'', ''errorMessage'', ''errorCode'', ''errorDetails'']"

text \<open>The state before any invocation.\<close>

definition initial_world :: world where
  "initial_world = \<lparr>calls = [], logs = [], results = [], pool = None, pool_ended = False\<rparr>"

section \<open>Example hosts and drivers\<close>

text \<open>A host whose parameters are the entries of a table; a parameter not in the table is \<open>undefined\<close>.\<close>

definition lookup_param :: "(string \<times> jsval) list \<Rightarrow> string \<Rightarrow> js_error + jsval" where
  "lookup_param params n = (case map_of params n of Some v \<Rightarrow> Inr v | None \<Rightarrow> Inr JUndefined)"

definition example_credentials :: jsval where
  "example_credentials =
     JObj [(''host'', JStr ''db.local''), (''database'', JStr ''shop''),
           (''user'', JStr ''app''), (''password'', JStr ''secret'')]"

text \<open>The text \<open>{"a":1,"b":2}\<close>, and a \<open>JSON.parse\<close> that knows this text only.\<close>

definition example_json :: string where
  "example_json = ''{'' @ [CHR 0x22] @ ''a'' @ [CHR 0x22] @ '':1,'' @ [CHR 0x22] @ ''b'' @ [CHR 0x22] @ '':2}''"

definition example_parse :: "string \<Rightarrow> js_error + jsval" where
  "example_parse s =
     (if s = example_json then Inr (JObj [(''a'', JNum 1), (''b'', JNum 2)])
      else Inl (JsError ''SyntaxError'' ''Unexpected token'' JUndefined))"

definition example_env :: "jsval \<Rightarrow> (string \<times> jsval) list
    \<Rightarrow> (call list \<Rightarrow> jsval \<Rightarrow> jsval list \<Rightarrow> js_error + exec_result) \<Rightarrow> env" where
  "example_env host_settings params driver =
     \<lparr>settings = host_settings,
      getCredentials = (\<lambda>name. Inr example_credentials),
      getNodeParameter = lookup_param params,
      json_parse = example_parse,
      drv_execute = driver,
      drv_end = (\<lambda>h. None)\<rparr>"

text \<open>A driver that answers every statement with one row, except the second statement it receives.\<close>

definition second_fails :: "call list \<Rightarrow> jsval \<Rightarrow> jsval list \<Rightarrow> js_error + exec_result" where
  "second_fails h q ps =
     (if length h = 1 then Inl (JsError ''Error'' ''Table is locked'' (JStr ''ER_LOCK_WAIT_TIMEOUT''))
      else Inr (RowSet [[(''id'', JNum 1)]], None))"

text \<open>A driver that never fails and answers every statement with one row.\<close>

definition one_row :: "call list \<Rightarrow> jsval \<Rightarrow> jsval list \<Rightarrow> js_error + exec_result" where
  "one_row h q ps = Inr (RowSet [[(''id'', JNum 1)]], None)"

text \<open>A driver that performs a write and fails on the statement after it.\<close>

definition write_then_fail :: "call list \<Rightarrow> jsval \<Rightarrow> jsval list \<Rightarrow> js_error + exec_result" where
  "write_then_fail h q ps =
     (if h = [] then Inr (ResultHeader 0 1 7 [] 2 0 1, None)
      else Inl (JsError ''Error'' ''Unknown column'' (JStr ''ER_BAD_FIELD_ERROR'')))"

definition continue_on_fail :: jsval where
  "continue_on_fail = JObj [(''continueOnFail'', JBool True)]"

definition select_params :: "(string \<times> jsval) list" where
  "select_params =
     [(''operation'', JStr ''select''), (''table'', JStr ''t''), (''columns'', JStr ''*''),
      (''where'', JStr []), (''whereParams'', JStr ''123, active''), (''returnAll'', JBool False),
      (''limit'', JNum 50), (''orderBy'', JStr [])]"

definition crud_params :: "(string \<times> jsval) list" where
  "crud_params =
     [(''table'', JStr ''t''), (''columns'', JStr ''id,name''), (''where'', JStr ''id = ?''),
      (''whereParams'', JStr ''7''), (''returnAll'', JBool False), (''limit'', JNum 50),
      (''orderBy'', JStr []), (''data'', JStr example_json), (''returnFields'', JStr ''*'')]"

text \<open>A host whose credentials hold a host name and nothing else.\<close>

definition host_only_env :: env where
  "host_only_env =
     (example_env JUndefined select_params one_row)
       \<lparr>getCredentials := (\<lambda>name. Inr (JObj [(''host'', JStr ''db.local'')]))\<rparr>"

text \<open>A server that refuses the password.\<close>

definition denying_driver :: conn_driver where
  "denying_driver =
     \<lparr>createConnection =
        (\<lambda>config. Some (JsError ''Error'' ''Access denied for user'' (JStr ''ER_ACCESS_DENIED_ERROR''))),
      conn_execute = (\<lambda>q. Inr (RowSet [], None)),
      conn_end = (\<lambda>n. None)\<rparr>"

text \<open>What a select with \<open>select_params\<close> sends, and the record it pushes when the driver answers with the one row.\<close>

definition select_sent :: "world \<Rightarrow> world" where
  "select_sent w = w\<lparr>calls := calls w @ [(JStr ''SELECT * FROM `t` LIMIT 50'', [])]\<rparr>"

definition select_record :: "item \<Rightarrow> jsval" where
  "select_record item =
     JObj (spread (json item) [(''rows'', JArr [JObj [(''id'', JNum 1)]]), (''rowCount'', JNum 1)])"

text \<open>
  A computation \<open>f\<close> that takes an item is independent of the item, from the state \<open>w\<close> and
  for the field names \<open>ks\<close>, when it either throws the same error in the same state for
  every item, or pushes for every item the object spread of the item followed by the same
  fields \<open>props\<close>, named \<open>ks\<close>, and ends in the same state otherwise; it leaves the pool alone.
\<close>

definition item_independent :: "string list \<Rightarrow> world \<Rightarrow> (item \<Rightarrow> (js_error + unit) \<times> world) \<Rightarrow> bool" where
  "item_independent ks w f =
     ((\<exists>e w1. results w1 = results w \<and> pool w1 = pool w \<and> pool_ended w1 = pool_ended w
          \<and> (\<forall>item. f item = (Inl e, w1)))
      \<or> (\<exists>props w1. map fst props = ks
          \<and> results w1 = results w \<and> pool w1 = pool w \<and> pool_ended w1 = pool_ended w
          \<and> (\<forall>item. f item = (Inr (), results_push (JObj (spread (json item) props)) w1))))"

text \<open>
  The values that the model prints as JavaScript does: those whose numbers, also inside
  arrays, are integers of magnitude below \<open>2^53\<close>.
\<close>

fun decimal :: "jsval \<Rightarrow> bool" where
  "decimal (JNum n) = (\<bar>n\<bar> < 9007199254740992)"
| "decimal (JArr xs) = (\<forall>x \<in> set xs. decimal x)"
| "decimal v = True"

text \<open>Parameters whose where parameters are surrounded by white space, a no-break space included.\<close>

definition spaced_params :: "(string \<times> jsval) list" where
  "spaced_params =
     [(''table'', JStr ''t''), (''columns'', JStr ''id,name''), (''where'', JStr ''id = ? AND s = ?''),
      (''whereParams'', JStr ([CHR 0xA0] @ ''7 , active '')), (''returnAll'', JBool False),
      (''limit'', JNum 50), (''orderBy'', JStr ''name ASC''), (''data'', JStr example_json),
      (''returnFields'', JStr ''id,name'')]"

section \<open>Properties of the helpers\<close>

lemma await_simps [simp]:
  "await (Inl e) w rest = (Inl e, w)"
  "await (Inr v) w rest = rest v"
  by (simp_all add: await_def)

lemma await_io_simps [simp]:
  "await_io (Inl e, w1) rest = (Inl e, w1)"
  "await_io (Inr v, w1) rest = rest v w1"
  by (simp_all add: await_io_def)

lemma map_of_replace_prop:
  "map_of obj k \<noteq> None \<Longrightarrow> map_of (replace_prop k v obj) x = ((map_of obj)(k \<mapsto> v)) x"
  by (induction obj) (auto split: if_splits)

lemma map_of_insert_index:
  "map_of obj k = None \<Longrightarrow> map_of (insert_index k v obj) x = ((map_of obj)(k \<mapsto> v)) x"
  by (induction obj) (auto split: if_splits)

lemma map_of_append_new:
  "map_of obj k = None \<Longrightarrow> map_of (obj @ [(k, v)]) x = ((map_of obj)(k \<mapsto> v)) x"
  by (auto simp: map_add_def split: option.splits)

lemma map_of_set_prop: "map_of (set_prop k v obj) = (map_of obj)(k \<mapsto> v)"
proof
  fix x
  show "map_of (set_prop k v obj) x = ((map_of obj)(k \<mapsto> v)) x"
    unfolding set_prop_def
    using map_of_replace_prop [of obj k v x] map_of_insert_index [of obj k v x]
      map_of_append_new [of obj k v x]
    by (cases "map_of obj k") (simp_all del: fun_upd_apply)
qed

lemma set_prop_new:
  "map_of obj k = None \<Longrightarrow> \<not> is_array_index k \<Longrightarrow> set_prop k v obj = obj @ [(k, v)]"
  by (simp add: set_prop_def)

lemma spread_Nil: "spread base [] = base"
  by (simp add: spread_def)

lemma spread_Cons: "spread base ((k, v) # props) = spread (set_prop k v base) props"
  by (simp add: spread_def)

lemma map_of_spread:
  "map_of (spread base props) k = (case map_of (rev props) k of Some v \<Rightarrow> Some v | None \<Rightarrow> map_of base k)"
proof (induction props arbitrary: base)
  case Nil
  then show ?case by (simp add: spread_Nil)
next
  case (Cons p props)
  obtain k' v' where p: "p = (k', v')" by (cases p)
  show ?case
    using Cons.IH [of "set_prop k' v' base"] p
    by (simp add: spread_Cons map_of_set_prop map_add_def split: option.splits)
qed




lemma props_exI:
  "map fst props = ks \<Longrightarrow> \<exists>props'. map fst props' = ks \<and> spread base props = spread base props'"
  by blast

lemma case_executeQuery_outcome:
  "case_executeQuery env item w = (r, w') \<Longrightarrow>
     pool w' = pool w \<and> pool_ended w' = pool_ended w \<and>
     (case r of
        Inl e \<Rightarrow> results w' = results w
      | Inr u \<Rightarrow> \<exists>props. map fst props = [''rows'', ''rowCount'', ''affectedRows'', ''insertId'', ''fields'']
                   \<and> results w' = results w @ [JObj (spread (json item) props)])"
  unfolding case_executeQuery_def await_def await_io_def pool_execute_def results_push_def
  by (auto split: sum.splits prod.splits if_splits intro!: props_exI)

lemma case_select_outcome:
  "case_select env item w = (r, w') \<Longrightarrow>
     pool w' = pool w \<and> pool_ended w' = pool_ended w \<and>
     (case r of
        Inl e \<Rightarrow> results w' = results w
      | Inr u \<Rightarrow> \<exists>props. map fst props = [''rows'', ''rowCount'']
                   \<and> results w' = results w @ [JObj (spread (json item) props)])"
  unfolding case_select_def await_def await_io_def pool_execute_def results_push_def
  by (auto split: sum.splits prod.splits if_splits intro!: props_exI)

lemma case_delete_outcome:
  "case_delete env item w = (r, w') \<Longrightarrow>
     pool w' = pool w \<and> pool_ended w' = pool_ended w \<and>
     (case r of
        Inl e \<Rightarrow> results w' = results w
      | Inr u \<Rightarrow> \<exists>props. map fst props = [''deleted'', ''rowCount'']
                   \<and> results w' = results w @ [JObj (spread (json item) props)])"
  unfolding case_delete_def await_def await_io_def pool_execute_def results_push_def
  by (auto split: sum.splits prod.splits if_splits intro!: props_exI)

lemma fetch_inserted_frame:
  "pool (snd (fetch_inserted env returnFields table insertResult insertedRow w)) = pool w \<and>
   pool_ended (snd (fetch_inserted env returnFields table insertResult insertedRow w)) = pool_ended w \<and>
   results (snd (fetch_inserted env returnFields table insertResult insertedRow w)) = results w"
  unfolding fetch_inserted_def pool_execute_def logger_def
  by (auto split: sum.splits prod.splits list.splits exec_rows.splits)

lemma fetch_updated_frame:
  "pool (snd (fetch_updated env returnFields table wher whereParamsStr w)) = pool w \<and>
   pool_ended (snd (fetch_updated env returnFields table wher whereParamsStr w)) = pool_ended w \<and>
   results (snd (fetch_updated env returnFields table wher whereParamsStr w)) = results w"
  unfolding fetch_updated_def pool_execute_def logger_def
  by (auto split: sum.splits prod.splits)

lemma pool_execute_frame:
  "pool (snd (pool_execute env q ps w)) = pool w"
  "pool_ended (snd (pool_execute env q ps w)) = pool_ended w"
  "results (snd (pool_execute env q ps w)) = results w"
  by (simp_all add: pool_execute_def)

lemma case_insert_outcome:
  "case_insert env item w = (r, w') \<Longrightarrow>
     pool w' = pool w \<and> pool_ended w' = pool_ended w \<and>
     (case r of
        Inl e \<Rightarrow> results w' = results w
      | Inr u \<Rightarrow> \<exists>props. map fst props = [''inserted'', ''rowCount'']
                   \<and> results w' = results w @ [JObj (spread (json item) props)])"
  unfolding case_insert_def await_def await_io_def results_push_def Let_def
  by (auto split: sum.splits prod.splits if_splits intro!: props_exI
      simp: fetch_inserted_frame pool_execute_frame)

lemma case_update_outcome:
  "case_update env item w = (r, w') \<Longrightarrow>
     pool w' = pool w \<and> pool_ended w' = pool_ended w \<and>
     (case r of
        Inl e \<Rightarrow> results w' = results w
      | Inr u \<Rightarrow> \<exists>props. map fst props = [''updated'', ''rowCount'', ''changedRows'']
                   \<and> results w' = results w @ [JObj (spread (json item) props)])"
  unfolding case_update_def await_def await_io_def results_push_def Let_def
  by (auto split: sum.splits prod.splits if_splits intro!: props_exI
      simp: fetch_updated_frame pool_execute_frame)

lemma run_operation_outcome:
  "run_operation env operation item w = (r, w') \<Longrightarrow>
     pool w' = pool w \<and> pool_ended w' = pool_ended w \<and>
     (case r of
        Inl e \<Rightarrow> results w' = results w
      | Inr u \<Rightarrow> \<exists>props. map fst props = success_fields operation
                   \<and> results w' = results w @ [JObj (spread (json item) props)])"
  unfolding run_operation_def success_fields_def
  using case_executeQuery_outcome [of env item w r w'] case_select_outcome [of env item w r w']
    case_insert_outcome [of env item w r w'] case_update_outcome [of env item w r w']
    case_delete_outcome [of env item w r w']
  by (auto split: if_splits)





lemma example_params [simp]:
  "getNodeParameter (example_env st ps drv) n = lookup_param ps n"
  "getCredentials (example_env st ps drv) n = Inr example_credentials"
  "settings (example_env st ps drv) = st"
  "drv_end (example_env st ps drv) h = None"
  "drv_execute (example_env st ps drv) = drv"
  "json_parse (example_env st ps drv) = example_parse"
  by (simp_all add: example_env_def)


lemma process_item_outcome:
  assumes "process_item env continueOnFail operation item w = (r, w')"
  shows "pool w' = pool w \<and> pool_ended w' = pool_ended w \<and>
     (case r of
        Inl e \<Rightarrow> results w' = results w
      | Inr u \<Rightarrow> \<exists>props. (map fst props = success_fields operation \<or> map fst props = error_fields)
                   \<and> results w' = results w @ [JObj (spread (json item) props)])"
proof (cases "run_operation env operation item w")
  case (Pair r1 w1)
  note out = run_operation_outcome [OF Pair]
  show ?thesis
  proof (cases r1)
    case (Inl e)
    have "map fst [(''error'', JBool True), (''errorMessage'', JStr (err_message e)),
                   (''errorCode'', err_code e), (''errorDetails'', JStr (error_toString e))] = error_fields"
      by (simp add: error_fields_def)
    then have "\<exists>props. (map fst props = success_fields operation \<or> map fst props = error_fields)
                   \<and> results w1 @ [error_record item e] = results w1 @ [JObj (spread (json item) props)]"
      unfolding error_record_def by blast
    then show ?thesis
      using assms Pair Inl out
      unfolding process_item_def results_push_def
      by (auto split: if_splits)
  next
    case (Inr u)
    then show ?thesis
      using assms Pair out unfolding process_item_def by auto
  qed
qed

lemmas example_defs =
  lookup_param_def select_params_def crud_params_def example_parse_def one_row_def second_fails_def write_then_fail_def
  continue_on_fail_def example_credentials_def initial_world_def

lemmas executor_defs =
  process_item_def run_operation_def case_executeQuery_def case_select_def case_insert_def
  case_update_def case_delete_def fetch_inserted_def fetch_updated_def pool_execute_def
  results_push_def logger_def error_record_def params_of_def split_params_def parse_data_def
  js_or_def

lemma case_select_call:
  assumes "getNodeParameter env ''table'' = Inr table"
      and "getNodeParameter env ''columns'' = Inr columns0"
      and "getNodeParameter env ''where'' = Inr wher"
      and "getNodeParameter env ''whereParams'' = Inr whereParamsStr"
      and "getNodeParameter env ''returnAll'' = Inr returnAll"
      and "(if truthy returnAll then Inr JNull else getNodeParameter env ''limit'') = Inr limit"
      and "getNodeParameter env ''orderBy'' = Inr orderBy"
      and "(if truthy wher then params_of ''whereParamsStr'' whereParamsStr else Inr []) = Inr queryParams"
  shows "calls (snd (case_select env item w))
           = calls w @ [(JStr (select_text (js_or columns0 (JStr ''*'')) table wher orderBy limit), queryParams)]"
  using assms
  unfolding case_select_def await_def await_io_def pool_execute_def results_push_def
  by (simp split: sum.splits prod.splits)

lemma case_delete_call:
  assumes "getNodeParameter env ''table'' = Inr table"
      and "getNodeParameter env ''where'' = Inr wher"
      and "getNodeParameter env ''whereParams'' = Inr whereParamsStr"
      and "truthy wher"
      and "params_of ''whereParamsStr'' whereParamsStr = Inr queryParams"
  shows "calls (snd (case_delete env item w)) = calls w @ [(JStr (delete_text table wher), queryParams)]"
  using assms
  unfolding case_delete_def await_def await_io_def pool_execute_def results_push_def
  by (simp split: sum.splits prod.splits)

lemma fetch_inserted_calls:
  "\<exists>cs. calls (snd (fetch_inserted env returnFields table insertResult insertedRow w)) = calls w @ cs"
  unfolding fetch_inserted_def pool_execute_def logger_def
  by (auto split: sum.splits prod.splits list.splits exec_rows.splits)

lemma fetch_updated_calls:
  "\<exists>cs. calls (snd (fetch_updated env returnFields table wher whereParamsStr w)) = calls w @ cs"
  unfolding fetch_updated_def pool_execute_def logger_def
  by (auto split: sum.splits prod.splits)

lemma pool_execute_calls:
  "calls (snd (pool_execute env q ps w)) = calls w @ [(q, ps)]"
  by (simp add: pool_execute_def)

lemma case_insert_call:
  assumes "getNodeParameter env ''table'' = Inr table"
      and "getNodeParameter env ''data'' = Inr dataStr"
      and "getNodeParameter env ''returnFields'' = Inr returnFields0"
      and "parse_data env dataStr = Inr data"
      and "object_keys data = Inr columns"
      and "object_values data = Inr vals"
  shows "\<exists>cs. calls (snd (case_insert env item w)) = calls w @ (JStr (insert_text table columns vals), vals) # cs"
proof (cases "fst (pool_execute env (JStr (insert_text table columns vals)) vals w)")
  case (Inl e)
  then show ?thesis
    using assms unfolding case_insert_def await_def await_io_def
    by (simp add: pool_execute_calls)
next
  case (Inr res)
  obtain insertResult flds where res: "res = (insertResult, flds)" by (cases res)
  show ?thesis
    using assms Inr res
      fetch_inserted_calls [of env "js_or returnFields0 (JStr ''*'')" table insertResult
        "[(''insertId'', rows_insertId insertResult), (''affectedRows'', rows_affectedRows insertResult)]"
        "snd (pool_execute env (JStr (insert_text table columns vals)) vals w)"]
    unfolding case_insert_def await_def await_io_def results_push_def Let_def
    by (auto simp: pool_execute_calls)
qed

lemma case_update_call:
  assumes "getNodeParameter env ''table'' = Inr table"
      and "getNodeParameter env ''data'' = Inr dataStr"
      and "getNodeParameter env ''where'' = Inr wher"
      and "getNodeParameter env ''whereParams'' = Inr whereParamsStr"
      and "getNodeParameter env ''returnFields'' = Inr returnFields0"
      and "truthy wher"
      and "parse_data env dataStr = Inr data"
      and "object_keys data = Inr columns"
      and "object_values data = Inr vals"
      and "params_of ''whereParamsStr'' whereParamsStr = Inr whereParams"
  shows "\<exists>cs. calls (snd (case_update env item w))
           = calls w @ (JStr (update_text table columns wher), vals @ whereParams) # cs"
proof (cases "fst (pool_execute env (JStr (update_text table columns wher)) (vals @ whereParams) w)")
  case (Inl e)
  then show ?thesis
    using assms unfolding case_update_def await_def await_io_def
    by (simp add: pool_execute_calls)
next
  case (Inr res)
  obtain updateResult flds where res: "res = (updateResult, flds)" by (cases res)
  show ?thesis
    using assms Inr res
      fetch_updated_calls [of env "js_or returnFields0 (JStr ''*'')" table wher whereParamsStr
        "snd (pool_execute env (JStr (update_text table columns wher)) (vals @ whereParams) w)"]
    unfolding case_update_def await_def await_io_def results_push_def Let_def
    by (auto simp: pool_execute_calls)
qed

lemmas show_defs = show_int_def show_nat.simps digit_char_def

lemmas object_defs = spread_Cons spread_Nil set_prop_def is_array_index_def is_digit_def

lemma for_items_append:
  "for_items env continueOnFail operation (xs @ ys) w =
     (case for_items env continueOnFail operation xs w of
        (Inl e, w1) \<Rightarrow> (Inl e, w1)
      | (Inr u, w1) \<Rightarrow> for_items env continueOnFail operation ys w1)"
  by (induction xs arbitrary: w) (auto split: prod.splits sum.splits)

lemma process_item_succeeds:
  assumes "process_item env (JBool False) operation item w = (Inr u, w1)"
  shows "process_item env continueOnFail operation item w = (Inr (), w1)
       \<and> (\<exists>props. map fst props = success_fields operation
                 \<and> results w1 = results w @ [JObj (spread (json item) props)])"
proof (cases "run_operation env operation item w")
  case (Pair r w')
  with assms have r: "r = Inr ()" and w': "w' = w1"
    by (auto simp: process_item_def split: sum.splits)
  from run_operation_outcome [OF Pair] r w' Pair show ?thesis
    by (auto simp: process_item_def)
qed

lemma for_items_succeed:
  assumes "for_items env (JBool False) operation items w = (Inr u, w')"
  shows "for_items env continueOnFail operation items w = (Inr (), w')
       \<and> (\<exists>rs. results w' = results w @ rs
               \<and> list_all2 (\<lambda>item r. \<exists>props. map fst props = success_fields operation
                                        \<and> r = JObj (spread (json item) props)) items rs)"
  using assms
proof (induction items arbitrary: w)
  case Nil
  then show ?case by simp
next
  case (Cons item items)
  from Cons.prems obtain w1
    where step: "process_item env (JBool False) operation item w = (Inr (), w1)"
      and rest: "for_items env (JBool False) operation items w1 = (Inr u, w')"
    by (auto split: prod.splits sum.splits)
  from process_item_succeeds [OF step, of continueOnFail]
  obtain props where step': "process_item env continueOnFail operation item w = (Inr (), w1)"
    and props: "map fst props = success_fields operation"
    and res: "results w1 = results w @ [JObj (spread (json item) props)]"
    by blast
  from Cons.IH [OF rest]
  obtain rs where rest': "for_items env continueOnFail operation items w1 = (Inr (), w')"
    and res': "results w' = results w1 @ rs"
    and all: "list_all2 (\<lambda>item r. \<exists>props. map fst props = success_fields operation
                                        \<and> r = JObj (spread (json item) props)) items rs"
    by blast
  have "list_all2 (\<lambda>item r. \<exists>props. map fst props = success_fields operation
                                        \<and> r = JObj (spread (json item) props))
          (item # items) (JObj (spread (json item) props) # rs)"
    using props all by auto
  then show ?case
    using step' rest' res res'
    by (intro conjI exI [of _ "JObj (spread (json item) props) # rs"]) simp_all
qed

lemma success_record_error_field:
  assumes "map fst props = success_fields operation" and "k \<in> set error_fields"
  shows "map_of (spread (json item) props) k = map_of (json item) k"
proof -
  have "k \<notin> set (map fst props)"
    unfolding assms(1) using assms(2) by (auto simp: success_fields_def error_fields_def)
  then have "map_of (rev props) k = None"
    by (simp add: map_of_eq_None_iff)
  then show ?thesis
    by (simp add: map_of_spread)
qed

lemma error_record_fields:
  "get_field (error_record item e) ''error'' = Some (JBool True)"
  "get_field (error_record item e) ''errorMessage'' = Some (JStr (err_message e))"
  "get_field (error_record item e) ''errorCode'' = Some (err_code e)"
  "get_field (error_record item e) ''errorDetails'' = Some (JStr (error_toString e))"
  by (simp_all add: error_record_def map_of_spread)

lemma read_credentials_results:
  "read_credentials env w = (r, w') \<Longrightarrow> results w' = results w"
  unfolding read_credentials_def await_def logger_def
  by (auto split: sum.splits if_splits)

lemma one_failure_loop:
  assumes pre: "for_items env (JBool False) operation pre w = (Inr (), w1)"
      and fail: "run_operation env operation x w1 = (Inl e, w2)"
      and post: "for_items env (JBool False) operation post (results_push (error_record x e) w2) = (Inr (), w3)"
  shows "truthy continueOnFail \<Longrightarrow> for_items env continueOnFail operation (pre @ x # post) w = (Inr (), w3)"
    and "\<not> truthy continueOnFail \<Longrightarrow> for_items env continueOnFail operation (pre @ x # post) w = (Inl e, w2)"
    and "\<exists>rs_pre rs_post. results w3 = results w @ rs_pre @ error_record x e # rs_post
           \<and> list_all2 (\<lambda>item r. \<exists>props. map fst props = success_fields operation
                                    \<and> r = JObj (spread (json item) props)) pre rs_pre
           \<and> list_all2 (\<lambda>item r. \<exists>props. map fst props = success_fields operation
                                    \<and> r = JObj (spread (json item) props)) post rs_post"
    and "results w2 = results w1"
proof -
  from for_items_succeed [OF pre, of continueOnFail]
  obtain rs_pre where pre': "for_items env continueOnFail operation pre w = (Inr (), w1)"
    and res1: "results w1 = results w @ rs_pre"
    and all1: "list_all2 (\<lambda>item r. \<exists>props. map fst props = success_fields operation
                                    \<and> r = JObj (spread (json item) props)) pre rs_pre"
    by blast
  from for_items_succeed [OF post, of continueOnFail]
  obtain rs_post where post': "for_items env continueOnFail operation post (results_push (error_record x e) w2) = (Inr (), w3)"
    and res3: "results w3 = results (results_push (error_record x e) w2) @ rs_post"
    and all3: "list_all2 (\<lambda>item r. \<exists>props. map fst props = success_fields operation
                                    \<and> r = JObj (spread (json item) props)) post rs_post"
    by blast
  from run_operation_outcome [OF fail] show res2: "results w2 = results w1"
    by simp
  show "for_items env continueOnFail operation (pre @ x # post) w = (Inr (), w3)" if "truthy continueOnFail"
    using that pre' fail post' by (simp add: for_items_append process_item_def)
  show "for_items env continueOnFail operation (pre @ x # post) w = (Inl e, w2)" if "\<not> truthy continueOnFail"
    using that pre' fail by (simp add: for_items_append process_item_def)
  have "results w3 = results w @ rs_pre @ error_record x e # rs_post"
    using res1 res2 res3 by (simp add: results_push_def)
  with all1 all3 show "\<exists>rs_pre rs_post. results w3 = results w @ rs_pre @ error_record x e # rs_post
           \<and> list_all2 (\<lambda>item r. \<exists>props. map fst props = success_fields operation
                                    \<and> r = JObj (spread (json item) props)) pre rs_pre
           \<and> list_all2 (\<lambda>item r. \<exists>props. map fst props = success_fields operation
                                    \<and> r = JObj (spread (json item) props)) post rs_post"
    by blast
qed

lemma select_succeeds:
  "length (calls w) \<noteq> 1 \<Longrightarrow>
     run_operation (example_env st select_params second_fails) (JStr ''select'') item w
       = (Inr (), select_sent (results_push (select_record item) w))"
  by (simp add: run_operation_def case_select_def pool_execute_def params_of_def example_defs
        select_text_def show_defs js_or_def results_push_def select_sent_def select_record_def)

lemma select_fails:
  "length (calls w) = 1 \<Longrightarrow>
     run_operation (example_env st select_params second_fails) (JStr ''select'') item w
       = (Inl (JsError ''Error'' ''Table is locked'' (JStr ''ER_LOCK_WAIT_TIMEOUT'')), select_sent w)"
  by (simp add: run_operation_def case_select_def pool_execute_def params_of_def example_defs
        select_text_def show_defs js_or_def select_sent_def)

lemma three_records:
  assumes "\<exists>rs_pre rs_post.
             run = (Inr (JArr [JObj [(''main'', JArr (rs_pre @ r # rs_post))]]), w)
             \<and> list_all2 P [a] rs_pre \<and> list_all2 P [c] rs_post \<and> Q"
  shows "\<exists>rs. fst run = Inr (JArr [JObj [(''main'', JArr rs)]]) \<and> length rs = 3 \<and> rs ! 1 = r"
proof -
  from assms obtain rs_pre rs_post
    where run: "run = (Inr (JArr [JObj [(''main'', JArr (rs_pre @ r # rs_post))]]), w)"
      and l1: "list_all2 P [a] rs_pre" and l3: "list_all2 P [c] rs_post"
    by blast
  from l1 l3 have "length rs_pre = 1" "length rs_post = 1"
    by (auto dest: list_all2_lengthD)
  with run show ?thesis
    by (intro exI [of _ "rs_pre @ r # rs_post"]) (simp add: nth_append)
qed

lemma truthy_prop_not_nullish: "truthy (get_prop data k) \<Longrightarrow> \<not> nullish data"
  by (cases data) simp_all

lemma spread_new_keys:
  "distinct (map fst props) \<Longrightarrow> \<forall>k \<in> set (map fst props). map_of base k = None \<and> \<not> is_array_index k
     \<Longrightarrow> spread base props = base @ props"
proof (induction props arbitrary: base)
  case Nil
  then show ?case by (simp add: spread_Nil)
next
  case (Cons p props)
  obtain k v where p: "p = (k, v)" by (cases p)
  have step: "set_prop k v base = base @ [(k, v)]"
    using Cons.prems p by (simp add: set_prop_new)
  have "\<forall>k' \<in> set (map fst props). map_of (base @ [(k, v)]) k' = None \<and> \<not> is_array_index k'"
    using Cons.prems p by (auto simp: map_add_def split: option.splits)
  with Cons.IH [of "base @ [(k, v)]"] Cons.prems p step show ?case
    by (simp add: spread_Cons)
qed

lemma added_fields_plain:
  assumes "map fst props = success_fields operation \<or> map fst props = error_fields"
  shows "distinct (map fst props)" and "\<forall>k \<in> set (map fst props). \<not> is_array_index k"
  using assms
  by (auto simp: success_fields_def error_fields_def is_array_index_def is_digit_def
      simp del: map_eq_Cons_conv split: if_splits)

lemma spread_empty_item:
  assumes "map fst props = success_fields operation \<or> map fst props = error_fields"
  shows "spread [] props = props"
  using spread_new_keys [of props "[]"] added_fields_plain [OF assms] by simp

lemma independent_throw:
  "results w1 = results w \<Longrightarrow> pool w1 = pool w \<Longrightarrow> pool_ended w1 = pool_ended w
     \<Longrightarrow> item_independent ks w (\<lambda>item. (Inl e, w1))"
  unfolding item_independent_def by blast

lemma independent_push:
  "map fst props = ks \<Longrightarrow> results w1 = results w \<Longrightarrow> pool w1 = pool w
     \<Longrightarrow> pool_ended w1 = pool_ended w
     \<Longrightarrow> item_independent ks w (\<lambda>item. (Inr (), results_push (JObj (spread (json item) props)) w1))"
  unfolding item_independent_def by blast

lemma independent_await:
  assumes "\<And>v. r = Inr v \<Longrightarrow> item_independent ks w (\<lambda>item. rest item v)"
  shows "item_independent ks w (\<lambda>item. await r w (rest item))"
proof (cases r)
  case (Inl e)
  then show ?thesis by (simp add: independent_throw)
next
  case (Inr v)
  with assms show ?thesis by simp
qed

lemma independent_await_io:
  assumes "\<And>v. drv_execute env (calls w) q ps = Inr v
             \<Longrightarrow> item_independent ks w (\<lambda>item. rest item v (snd (pool_execute env q ps w)))"
  shows "item_independent ks w (\<lambda>item. await_io (pool_execute env q ps w) (rest item))"
proof (cases "drv_execute env (calls w) q ps")
  case (Inl e)
  then have "await_io (pool_execute env q ps w) (rest item) = (Inl e, snd (pool_execute env q ps w))" for item
    by (simp add: await_io_def pool_execute_def)
  then show ?thesis
    by (simp add: independent_throw pool_execute_frame)
next
  case (Inr v)
  then have "await_io (pool_execute env q ps w) (rest item) = rest item v (snd (pool_execute env q ps w))" for item
    by (simp add: await_io_def pool_execute_def)
  with assms [OF Inr] show ?thesis by simp
qed

lemma case_select_independent:
  "item_independent [''rows'', ''rowCount''] w (\<lambda>item. case_select env item w)"
  unfolding case_select_def
  by (intro independent_await independent_await_io)
     (simp add: split_beta independent_push pool_execute_frame)

lemma case_executeQuery_independent:
  "item_independent [''rows'', ''rowCount'', ''affectedRows'', ''insertId'', ''fields''] w
     (\<lambda>item. case_executeQuery env item w)"
  unfolding case_executeQuery_def
  by (intro independent_await independent_await_io)
     (simp add: split_beta independent_push pool_execute_frame)

lemma case_delete_independent:
  "item_independent [''deleted'', ''rowCount''] w (\<lambda>item. case_delete env item w)"
  unfolding case_delete_def
  by (intro independent_await independent_await_io)
     (simp add: split_beta independent_push pool_execute_frame)

lemma case_insert_independent:
  "item_independent [''inserted'', ''rowCount''] w (\<lambda>item. case_insert env item w)"
  unfolding case_insert_def
  by (intro independent_await independent_await_io)
     (simp add: split_beta Let_def independent_push pool_execute_frame fetch_inserted_frame)

lemma case_update_independent:
  "item_independent [''updated'', ''rowCount'', ''changedRows''] w (\<lambda>item. case_update env item w)"
  unfolding case_update_def
  by (intro independent_await independent_await_io)
     (simp add: split_beta Let_def independent_push pool_execute_frame fetch_updated_frame)

lemma run_operation_independent:
  "item_independent (success_fields operation) w (\<lambda>item. run_operation env operation item w)"
  unfolding run_operation_def success_fields_def
  by (simp add: case_executeQuery_independent case_select_independent case_insert_independent
        case_update_independent case_delete_independent independent_throw)

lemma fetch_inserted_call:
  "calls (snd (fetch_inserted env returnFields table insertResult insertedRow w))
     = calls w @ [(JStr (fetch_inserted_text returnFields table), [rows_insertId insertResult])]"
  unfolding fetch_inserted_def pool_execute_def logger_def
  by (auto split: sum.splits prod.splits list.splits exec_rows.splits)

lemma fetch_updated_call:
  "params_of ''whereParamsStr'' whereParamsStr = Inr whereParams \<Longrightarrow>
   calls (snd (fetch_updated env returnFields table wher whereParamsStr w))
     = calls w @ [(JStr (fetch_updated_text returnFields table wher), whereParams)]"
  unfolding fetch_updated_def pool_execute_def logger_def
  by (auto split: sum.splits prod.splits)

lemma case_insert_calls:
  assumes "getNodeParameter env ''table'' = Inr table"
      and "getNodeParameter env ''data'' = Inr dataStr"
      and "getNodeParameter env ''returnFields'' = Inr returnFields0"
      and "parse_data env dataStr = Inr data"
      and "object_keys data = Inr columns"
      and "object_values data = Inr vals"
  shows "calls (snd (case_insert env item w))
           = calls w @ (JStr (insert_text table columns vals), vals) #
               (case drv_execute env (calls w) (JStr (insert_text table columns vals)) vals of
                  Inl e \<Rightarrow> []
                | Inr (insertResult, flds) \<Rightarrow>
                    if js_or returnFields0 (JStr ''*'') \<noteq> JStr ''*'' \<or> truthy (rows_insertId insertResult)
                    then [(JStr (fetch_inserted_text (js_or returnFields0 (JStr ''*'')) table),
                           [rows_insertId insertResult])]
                    else [])"
proof (cases "drv_execute env (calls w) (JStr (insert_text table columns vals)) vals")
  case (Inl e)
  then show ?thesis
    using assms unfolding case_insert_def
    by (simp add: await_io_def pool_execute_def)
next
  case (Inr res)
  obtain insertResult flds where res: "res = (insertResult, flds)" by (cases res)
  show ?thesis
    using assms Inr res unfolding case_insert_def
    by (simp add: await_io_def Let_def results_push_def fetch_inserted_call pool_execute_def)
qed

lemma case_update_calls:
  assumes "getNodeParameter env ''table'' = Inr table"
      and "getNodeParameter env ''data'' = Inr dataStr"
      and "getNodeParameter env ''where'' = Inr wher"
      and "getNodeParameter env ''whereParams'' = Inr whereParamsStr"
      and "getNodeParameter env ''returnFields'' = Inr returnFields0"
      and "truthy wher"
      and "parse_data env dataStr = Inr data"
      and "object_keys data = Inr columns"
      and "object_values data = Inr vals"
      and "params_of ''whereParamsStr'' whereParamsStr = Inr whereParams"
  shows "calls (snd (case_update env item w))
           = calls w @ (JStr (update_text table columns wher), vals @ whereParams) #
               (case drv_execute env (calls w) (JStr (update_text table columns wher)) (vals @ whereParams) of
                  Inl e \<Rightarrow> []
                | Inr (updateResult, flds) \<Rightarrow>
                    if js_gt0 (rows_affectedRows updateResult)
                    then [(JStr (fetch_updated_text (js_or returnFields0 (JStr ''*'')) table wher),
                           whereParams)]
                    else [])"
proof (cases "drv_execute env (calls w) (JStr (update_text table columns wher)) (vals @ whereParams)")
  case (Inl e)
  then show ?thesis
    using assms unfolding case_update_def
    by (simp add: await_io_def pool_execute_def)
next
  case (Inr res)
  obtain updateResult flds where res: "res = (updateResult, flds)" by (cases res)
  show ?thesis
    using assms Inr res unfolding case_update_def
    by (simp add: await_io_def Let_def results_push_def fetch_updated_call pool_execute_def)
qed

lemma for_items_pool:
  "pool (snd (for_items env continueOnFail operation items w)) = pool w"
proof (induction items arbitrary: w)
  case Nil
  show ?case by simp
next
  case (Cons item items)
  obtain r w1 where step: "process_item env continueOnFail operation item w = (r, w1)"
    by (cases "process_item env continueOnFail operation item w")
  from process_item_outcome [OF step] have "pool w1 = pool w" by simp
  with step Cons.IH [of w1] show ?case
    by (cases r) simp_all
qed

lemma with_pool_pool:
  "pool (snd (with_pool env continueOnFail operation config items w)) = Some config"
proof -
  have "pool (snd (for_items env continueOnFail operation items (createPool config w))) = Some config"
    by (simp add: for_items_pool createPool_def)
  then show ?thesis
    unfolding with_pool_def pool_end_def
    by (auto split: prod.splits option.splits sum.splits)
qed

section \<open>The claims\<close>




text \<open>
  C9. Whenever the body of the loop pushes a record for an item (the operation succeeded, or
  it failed under continue-on-fail), the record is the object spread of the item followed by
  the fields \<open>props\<close> of the operation, or by those of an error record. These fields do not
  depend on the item: they are the record that the same operation pushes, from the same
  state and with the same effects, for the item without fields; for an error record they
  are \<open>error: true\<close> and the message, the code and the text of the error. Under each of
  their names the record holds the value of the operation, whatever the item held under
  that name; under every other key it holds what the item held, and nothing where the item
  held nothing.
\<close>

theorem operation_fields_override:
  assumes "process_item env continueOnFail operation item w = (Inr u, w')"
  shows "\<exists>props.
           process_item env continueOnFail operation (Item []) w
             = (Inr (), w'\<lparr>results := results w @ [JObj props]\<rparr>)
           \<and> (map fst props = success_fields operation \<or> map fst props = error_fields)
           \<and> (\<forall>e w1. run_operation env operation item w = (Inl e, w1) \<longrightarrow>
                 props = [(''error'', JBool True), (''errorMessage'', JStr (err_message e)),
                          (''errorCode'', err_code e), (''errorDetails'', JStr (error_toString e))])
           \<and> results w' = results w @ [JObj (spread (json item) props)]
           \<and> (\<forall>k v. (k, v) \<in> set props \<longrightarrow> get_field (JObj (spread (json item) props)) k = Some v)
           \<and> (\<forall>k. k \<notin> fst ` set props
                  \<longrightarrow> get_field (JObj (spread (json item) props)) k = map_of (json item) k)"
proof -
  have carried: "(\<forall>k v. (k, v) \<in> set props \<longrightarrow> get_field (JObj (spread (json item) props)) k = Some v)
           \<and> (\<forall>k. k \<notin> fst ` set props
                  \<longrightarrow> get_field (JObj (spread (json item) props)) k = map_of (json item) k)"
    if names: "map fst props = success_fields operation \<or> map fst props = error_fields" for props
  proof (intro conjI allI impI)
    fix k v
    assume "(k, v) \<in> set props"
    with added_fields_plain(1) [OF names] have "map_of (rev props) k = Some v"
      by (intro map_of_is_SomeI) (simp_all add: rev_map [symmetric])
    then show "get_field (JObj (spread (json item) props)) k = Some v"
      by (simp add: map_of_spread)
  next
    fix k
    assume "k \<notin> fst ` set props"
    then have "map_of (rev props) k = None"
      by (simp add: map_of_eq_None_iff)
    then show "get_field (JObj (spread (json item) props)) k = map_of (json item) k"
      by (simp add: map_of_spread)
  qed
  from run_operation_independent [of operation w env]
  consider (throws) e w1 where "results w1 = results w"
      "\<forall>item. run_operation env operation item w = (Inl e, w1)"
    | (pushes) props w1 where "map fst props = success_fields operation" "results w1 = results w"
      "\<forall>item. run_operation env operation item w
          = (Inr (), results_push (JObj (spread (json item) props)) w1)"
    unfolding item_independent_def by blast
  then show ?thesis
  proof cases
    case throws
    let ?props = "[(''error'', JBool True), (''errorMessage'', JStr (err_message e)),
                   (''errorCode'', err_code e), (''errorDetails'', JStr (error_toString e))]"
    have names: "map fst ?props = success_fields operation \<or> map fst ?props = error_fields"
      by (simp add: error_fields_def)
    from throws(2) assms have cof: "truthy continueOnFail"
      and w': "w' = results_push (error_record item e) w1"
      by (auto simp: process_item_def split: if_splits)
    have empty: "process_item env continueOnFail operation (Item []) w
                   = (Inr (), w'\<lparr>results := results w @ [JObj ?props]\<rparr>)"
      using throws cof w' spread_empty_item [OF names]
      by (simp add: process_item_def error_record_def results_push_def)
    have res: "results w' = results w @ [JObj (spread (json item) ?props)]"
      using throws(1) w' by (simp add: error_record_def results_push_def)
    have only: "\<forall>e' w1'. run_operation env operation item w = (Inl e', w1') \<longrightarrow>
                 ?props = [(''error'', JBool True), (''errorMessage'', JStr (err_message e')),
                          (''errorCode'', err_code e'), (''errorDetails'', JStr (error_toString e'))]"
      using throws(2) by simp
    show ?thesis
      by (rule exI [of _ ?props])
         (intro conjI empty names only res conjunct1 [OF carried [OF names]]
            conjunct2 [OF carried [OF names]])
  next
    case pushes
    have names: "map fst props = success_fields operation \<or> map fst props = error_fields"
      using pushes(1) by simp
    from pushes(3) assms have w': "w' = results_push (JObj (spread (json item) props)) w1"
      by (simp add: process_item_def)
    have empty: "process_item env continueOnFail operation (Item []) w
                   = (Inr (), w'\<lparr>results := results w @ [JObj props]\<rparr>)"
      using pushes w' spread_empty_item [OF names]
      by (simp add: process_item_def results_push_def)
    have res: "results w' = results w @ [JObj (spread (json item) props)]"
      using pushes(2) w' by (simp add: results_push_def)
    have only: "\<forall>e w1. run_operation env operation item w = (Inl e, w1) \<longrightarrow>
                 props = [(''error'', JBool True), (''errorMessage'', JStr (err_message e)),
                          (''errorCode'', err_code e), (''errorDetails'', JStr (error_toString e))]"
      using pushes(3) by simp
    show ?thesis
      by (rule exI [of _ props])
         (intro conjI empty names only res conjunct1 [OF carried [OF names]]
            conjunct2 [OF carried [OF names]])
  qed
qed

theorem operation_fields_override_witness:
  "results (snd (process_item (example_env JUndefined select_params one_row) (JBool False)
                   (JStr ''select'') (Item []) initial_world))
     = [JObj [(''rows'', JArr [JObj [(''id'', JNum 1)]]), (''rowCount'', JNum 1)]]
   \<and> results (snd (process_item (example_env JUndefined select_params one_row) (JBool False)
                       (JStr ''select'') (Item [(''rows'', JNum 5), (''a'', JNum 1)]) initial_world))
     = [JObj [(''rows'', JArr [JObj [(''id'', JNum 1)]]), (''a'', JNum 1), (''rowCount'', JNum 1)]]"
proof -
  let ?env = "example_env JUndefined select_params one_row"
  let ?item = "Item [(''rows'', JNum 5), (''a'', JNum 1)]"
  let ?run = "process_item ?env (JBool False) (JStr ''select'') ?item initial_world"
  let ?bare = "process_item ?env (JBool False) (JStr ''select'') (Item []) initial_world"
  have "fst ?run = Inr ()"
    by (simp add: executor_defs example_defs)
  then have "?run = (Inr (), snd ?run)"
    by (metis prod.collapse)
  from operation_fields_override [OF this]
  obtain props where bare: "?bare = (Inr (), (snd ?run)\<lparr>results := results initial_world @ [JObj props]\<rparr>)"
    and pushed: "results (snd ?run) = results initial_world @ [JObj (spread (json ?item) props)]"
    by blast
  have own: "results (snd ?bare) = [JObj [(''rows'', JArr [JObj [(''id'', JNum 1)]]), (''rowCount'', JNum 1)]]"
    by (simp add: executor_defs example_defs object_defs)
  with bare have "props = [(''rows'', JArr [JObj [(''id'', JNum 1)]]), (''rowCount'', JNum 1)]"
    by (simp add: initial_world_def)
  with pushed own show ?thesis
    by (simp add: initial_world_def object_defs)
qed

text \<open>
  C3. An update or a delete whose \<open>where\<close> parameter is the empty string throws inside the
  case, in the state in which the case was entered: no statement has gone to the driver. The
  item then gives an error record under continue-on-fail, and ends the loop otherwise. When
  the reads of the parameters do not throw themselves, the error thrown is the \<open>Error\<close> whose
  message says that a WHERE clause is required (the source has no error classes: this
  \<open>Error\<close> is what the specification calls a ValidationError).
\<close>

theorem empty_where_rejected:
  assumes "operation = JStr ''update'' \<or> operation = JStr ''delete''"
      and "getNodeParameter env ''where'' = Inr (JStr [])"
  shows "\<exists>e. run_operation env operation item w = (Inl e, w)
           \<and> process_item env continueOnFail operation item w
               = (if truthy continueOnFail then (Inr (), results_push (error_record item e) w) else (Inl e, w))
           \<and> calls (snd (process_item env continueOnFail operation item w)) = calls w
           \<and> ((\<forall>n. \<exists>v. getNodeParameter env n = Inr v)
                \<longrightarrow> e = new_Error (if operation = JStr ''update'' then where_required_update
                                     else where_required_delete))"
proof -
  have fails: "\<exists>e. run_operation env operation item w = (Inl e, w)"
    using assms
    unfolding run_operation_def case_update_def case_delete_def await_def
    by (auto split: sum.splits)
  have message: "run_operation env operation item w
      = (Inl (new_Error (if operation = JStr ''update'' then where_required_update
                         else where_required_delete)), w)"
    if all: "\<forall>n. \<exists>v. getNodeParameter env n = Inr v"
  proof -
    from all obtain table where t: "getNodeParameter env ''table'' = Inr table" by blast
    from all obtain dataStr where d: "getNodeParameter env ''data'' = Inr dataStr" by blast
    from all obtain whereParamsStr where p: "getNodeParameter env ''whereParams'' = Inr whereParamsStr" by blast
    from all obtain returnFields where f: "getNodeParameter env ''returnFields'' = Inr returnFields" by blast
    show ?thesis
      using assms t d p f
      unfolding run_operation_def case_update_def case_delete_def
      by auto
  qed
  from fails obtain e where e: "run_operation env operation item w = (Inl e, w)" ..
  have "(\<forall>n. \<exists>v. getNodeParameter env n = Inr v)
          \<longrightarrow> e = new_Error (if operation = JStr ''update'' then where_required_update
                               else where_required_delete)"
    using e message by auto
  then show ?thesis
    using e by (intro exI [of _ e]) (simp add: process_item_def results_push_def)
qed

theorem empty_where_rejected_witness:
  "run_operation (example_env JUndefined [(''table'', JStr ''t''), (''where'', JStr [])] one_row)
      (JStr ''delete'') (Item []) initial_world
     = (Inl (new_Error where_required_delete), initial_world)
   \<and> calls (snd (process_item (example_env JUndefined [(''table'', JStr ''t''), (''where'', JStr [])] one_row)
        (JBool True) (JStr ''delete'') (Item []) initial_world)) = calls initial_world"
proof -
  let ?env = "example_env JUndefined [(''table'', JStr ''t''), (''where'', JStr [])] one_row"
  have op: "JStr ''delete'' = JStr ''update'' \<or> JStr ''delete'' = JStr ''delete''"
    by simp
  have wher: "getNodeParameter ?env ''where'' = Inr (JStr [])"
    by (simp add: lookup_param_def)
  have all: "\<forall>n. \<exists>v. getNodeParameter ?env n = Inr v"
    by (simp add: lookup_param_def split: option.splits)
  from empty_where_rejected [OF op wher, of "Item []" initial_world "JBool True"] all
  show ?thesis by auto
qed

text \<open>
  C10. A select whose \<open>where\<close> parameter is falsy (the empty string in particular) sends one
  statement, with no WHERE clause and with the empty parameter list, whatever
  \<open>whereParams\<close> is.
\<close>

theorem select_without_where_ignores_whereParams:
  assumes "getNodeParameter env ''table'' = Inr table"
      and "getNodeParameter env ''columns'' = Inr columns0"
      and "getNodeParameter env ''where'' = Inr wher"
      and "\<not> truthy wher"
      and "getNodeParameter env ''whereParams'' = Inr whereParamsStr"
      and "getNodeParameter env ''returnAll'' = Inr returnAll"
      and "(if truthy returnAll then Inr JNull else getNodeParameter env ''limit'') = Inr limit"
      and "getNodeParameter env ''orderBy'' = Inr orderBy"
  shows "calls (snd (case_select env item w))
           = calls w @ [(JStr (''SELECT '' @ to_str (js_or columns0 (JStr ''*'')) @ '' FROM `'' @ to_str table @ ''`''
                              @ (if truthy orderBy then '' ORDER BY '' @ to_str orderBy else [])
                              @ (if truthy limit then '' LIMIT '' @ to_str limit else [])),
                        [])]"
proof -
  have "(if truthy wher then params_of ''whereParamsStr'' whereParamsStr else Inr []) = Inr []"
    using assms(4) by simp
  from case_select_call [OF assms(1-3) assms(5-8) this, of item w] assms(4)
  show ?thesis by (simp add: select_text_def)
qed

theorem select_without_where_ignores_whereParams_witness:
  "calls (snd (case_select (example_env JUndefined select_params one_row) (Item []) initial_world))
     = [(JStr ''SELECT * FROM `t` LIMIT 50'', [])]"
proof -
  let ?env = "example_env JUndefined select_params one_row"
  have "calls (snd (case_select ?env (Item []) initial_world))
          = calls initial_world @ [(JStr (''SELECT '' @ to_str (js_or (JStr ''*'') (JStr ''*'')) @ '' FROM `'' @ to_str (JStr ''t'') @ ''`''
                              @ (if truthy (JStr []) then '' ORDER BY '' @ to_str (JStr []) else [])
                              @ (if truthy (JNum 50) then '' LIMIT '' @ to_str (JNum 50) else [])),
                        [])]"
    by (rule select_without_where_ignores_whereParams [where wher = "JStr []" and whereParamsStr = "JStr ''123, active''"
          and returnAll = "JBool False"])
       (simp_all add: lookup_param_def select_params_def)
  then show ?thesis
    by (simp add: show_defs js_or_def initial_world_def)
qed

text \<open>
  C7. An insert into table \<open>t\<close> whose data is the object \<open>{"a":1,"b":2}\<close>, given as such or as
  a text that \<open>JSON.parse\<close> turns into it, first sends the statement
  \<open>INSERT INTO `t` (`a`, `b`) VALUES (?, ?)\<close> with the parameters \<open>[1, 2]\<close>.
\<close>

theorem insert_statement_example:
  assumes "getNodeParameter env ''table'' = Inr (JStr ''t'')"
      and "getNodeParameter env ''data'' = Inr dataStr"
      and "getNodeParameter env ''returnFields'' = Inr returnFields0"
      and "parse_data env dataStr = Inr (JObj [(''a'', JNum 1), (''b'', JNum 2)])"
  shows "\<exists>cs. calls (snd (case_insert env item w))
           = calls w @ (JStr ''INSERT INTO `t` (`a`, `b`) VALUES (?, ?)'', [JNum 1, JNum 2]) # cs"
proof -
  have keys: "object_keys (JObj [(''a'', JNum 1), (''b'', JNum 2)]) = Inr [''a'', ''b'']"
    and vals: "object_values (JObj [(''a'', JNum 1), (''b'', JNum 2)]) = Inr [JNum 1, JNum 2]"
    by simp_all
  have "insert_text (JStr ''t'') [''a'', ''b''] [JNum 1, JNum 2] = ''INSERT INTO `t` (`a`, `b`) VALUES (?, ?)''"
    by (simp add: insert_text_def)
  with case_insert_call [OF assms keys vals, of item w] show ?thesis
    by simp
qed

theorem insert_statement_example_witness:
  "\<exists>cs. calls (snd (case_insert (example_env JUndefined crud_params write_then_fail) (Item []) initial_world))
     = calls initial_world @ (JStr ''INSERT INTO `t` (`a`, `b`) VALUES (?, ?)'', [JNum 1, JNum 2]) # cs"
  by (rule insert_statement_example [where dataStr = "JStr example_json"])
     (simp_all add: lookup_param_def crud_params_def parse_data_def example_parse_def)

text \<open>
  C2, as stated, fails: a select with the limit 50 sends a statement whose text holds the
  limit, and the limit is not among the positional parameters. The columns of a select are
  not quoted either. And a table name is put between backticks but not escaped: a backtick
  in it is copied as it is, as is a value written in the where clause.
\<close>

theorem select_limit_in_statement_text:
  "calls (snd (case_select (example_env JUndefined crud_params one_row) (Item []) initial_world))
     = [(JStr ''SELECT id,name FROM `t` WHERE id = ? LIMIT 50'', [JStr ''7''])]
   \<and> calls (snd (case_delete
         (example_env JUndefined [(''table'', JStr ''a`b''), (''where'', JStr ''id = 7'')] one_row)
         (Item []) initial_world))
     = [(JStr ''DELETE FROM `a`b` WHERE id = 7'', [])]"
  by (simp add: executor_defs example_defs select_text_def delete_text_def show_defs split_params_def
        trim_def is_space_def)

text \<open>
  C2, amended. When the parameters an operation reads are there, the four operations send
  exactly these statements; the table and the fragments are values that the model prints as
  JavaScript does. The table name stands between backticks as it is, with no escaping; so
  does each key of the data in an insert and an update. The columns of a select, the where
  clause, the order-by clause and the return fields of the follow-up \<open>SELECT\<close> are copied as
  they are, and a truthy limit is copied into the text after \<open>LIMIT\<close>. The values of the data
  and the where parameters are not in the text: the text has one \<open>?\<close> per value, and the
  values go in the parameter list, the data first, in the order of the keys, then the
  where parameters, the list that \<open>params_of\<close> makes of their text: its pieces between
  commas, trimmed. A select and
  a delete send one statement. An insert that the driver accepts sends a second statement
  when the return fields are not \<open>*\<close> or the generated id is truthy: the \<open>SELECT\<close> of the return
  fields \<open>WHERE id = ?\<close>, with the generated id as its parameter. An update that the driver
  accepts and that affected a row sends a second statement: the \<open>SELECT\<close> of the return
  fields with the same where clause and where parameters. Nothing else is sent.
\<close>

theorem statements_and_parameters:
  assumes table: "getNodeParameter env ''table'' = Inr table" and "decimal table"
  shows "(\<forall>columns0 wher whereParamsStr returnAll limit orderBy queryParams.
            getNodeParameter env ''columns'' = Inr columns0 \<and> decimal columns0
          \<and> getNodeParameter env ''where'' = Inr wher \<and> decimal wher
          \<and> getNodeParameter env ''whereParams'' = Inr whereParamsStr
          \<and> getNodeParameter env ''returnAll'' = Inr returnAll
          \<and> (if truthy returnAll then Inr JNull else getNodeParameter env ''limit'') = Inr limit
          \<and> decimal limit
          \<and> getNodeParameter env ''orderBy'' = Inr orderBy \<and> decimal orderBy
          \<and> (if truthy wher then params_of ''whereParamsStr'' whereParamsStr else Inr []) = Inr queryParams
          \<longrightarrow> calls (snd (case_select env item w))
                = calls w @ [(JStr (''SELECT '' @ to_str (js_or columns0 (JStr ''*'')) @ '' FROM `'' @ to_str table @ ''`''
                                   @ (if truthy wher then '' WHERE '' @ to_str wher else [])
                                   @ (if truthy orderBy then '' ORDER BY '' @ to_str orderBy else [])
                                   @ (if truthy limit then '' LIMIT '' @ to_str limit else [])),
                             queryParams)])
       \<and> (\<forall>dataStr returnFields0 data columns vals.
            getNodeParameter env ''data'' = Inr dataStr
          \<and> getNodeParameter env ''returnFields'' = Inr returnFields0 \<and> decimal returnFields0
          \<and> parse_data env dataStr = Inr data
          \<and> object_keys data = Inr columns \<and> object_values data = Inr vals
          \<longrightarrow> calls (snd (case_insert env item w))
                = calls w
                  @ (JStr (''INSERT INTO `'' @ to_str table @ ''` (`'' @ join ''`, `'' columns @ ''`) VALUES (''
                           @ join '', '' (replicate (length vals) ''?'') @ '')''),
                     vals)
                  # (case drv_execute env (calls w)
                            (JStr (''INSERT INTO `'' @ to_str table @ ''` (`'' @ join ''`, `'' columns
                                   @ ''`) VALUES ('' @ join '', '' (replicate (length vals) ''?'') @ '')''))
                            vals of
                       Inl insertError \<Rightarrow> []
                     | Inr (insertResult, flds) \<Rightarrow>
                         if js_or returnFields0 (JStr ''*'') \<noteq> JStr ''*'' \<or> truthy (rows_insertId insertResult)
                         then [(JStr (''SELECT '' @ to_str (js_or returnFields0 (JStr ''*'')) @ '' FROM `''
                                      @ to_str table @ ''` WHERE id = ?''),
                                [rows_insertId insertResult])]
                         else []))
       \<and> (\<forall>dataStr wher whereParamsStr returnFields0 data columns vals whereParams.
            getNodeParameter env ''data'' = Inr dataStr
          \<and> getNodeParameter env ''where'' = Inr wher \<and> decimal wher \<and> truthy wher
          \<and> getNodeParameter env ''whereParams'' = Inr whereParamsStr
          \<and> getNodeParameter env ''returnFields'' = Inr returnFields0 \<and> decimal returnFields0
          \<and> parse_data env dataStr = Inr data
          \<and> object_keys data = Inr columns \<and> object_values data = Inr vals
          \<and> params_of ''whereParamsStr'' whereParamsStr = Inr whereParams
          \<longrightarrow> calls (snd (case_update env item w))
                = calls w
                  @ (JStr (''UPDATE `'' @ to_str table @ ''` SET ''
                           @ join '', '' (map (\<lambda>col. ''`'' @ col @ ''` = ?'') columns)
                           @ '' WHERE '' @ to_str wher),
                     vals @ whereParams)
                  # (case drv_execute env (calls w)
                            (JStr (''UPDATE `'' @ to_str table @ ''` SET ''
                                   @ join '', '' (map (\<lambda>col. ''`'' @ col @ ''` = ?'') columns)
                                   @ '' WHERE '' @ to_str wher))
                            (vals @ whereParams) of
                       Inl updateError \<Rightarrow> []
                     | Inr (updateResult, flds) \<Rightarrow>
                         if js_gt0 (rows_affectedRows updateResult)
                         then [(JStr (''SELECT '' @ to_str (js_or returnFields0 (JStr ''*'')) @ '' FROM `''
                                      @ to_str table @ ''` WHERE '' @ to_str wher),
                                whereParams)]
                         else []))
       \<and> (\<forall>wher whereParamsStr queryParams.
            getNodeParameter env ''where'' = Inr wher \<and> decimal wher \<and> truthy wher
          \<and> getNodeParameter env ''whereParams'' = Inr whereParamsStr
          \<and> params_of ''whereParamsStr'' whereParamsStr = Inr queryParams
          \<longrightarrow> calls (snd (case_delete env item w))
                = calls w @ [(JStr (''DELETE FROM `'' @ to_str table @ ''` WHERE '' @ to_str wher), queryParams)])"
proof (intro conjI allI impI, goal_cases)
  case (1 columns0 wher whereParamsStr returnAll limit orderBy queryParams)
  show ?case
    by (rule case_select_call [OF table, unfolded select_text_def])
       (use 1 in \<open>auto split: if_splits\<close>)
next
  case (2 dataStr returnFields0 data columns vals)
  show ?case
    by (rule case_insert_calls
          [OF table, unfolded insert_text_def fetch_inserted_text_def map_replicate_const])
       (use 2 in auto)
next
  case (3 dataStr wher whereParamsStr returnFields0 data columns vals whereParams)
  show ?case
    by (rule case_update_calls [OF table, unfolded update_text_def fetch_updated_text_def])
       (use 3 in auto)
next
  case (4 wher whereParamsStr queryParams)
  show ?case
    by (rule case_delete_call [OF table, unfolded delete_text_def])
       (use 4 in auto)
qed

theorem statements_and_parameters_witness:
  "calls (snd (case_select (example_env JUndefined spaced_params write_then_fail) (Item []) initial_world))
     = [(JStr ''SELECT id,name FROM `t` WHERE id = ? AND s = ? ORDER BY name ASC LIMIT 50'',
         [JStr ''7'', JStr ''active''])]
   \<and> calls (snd (case_insert (example_env JUndefined spaced_params write_then_fail) (Item []) initial_world))
     = [(JStr ''INSERT INTO `t` (`a`, `b`) VALUES (?, ?)'', [JNum 1, JNum 2]),
        (JStr ''SELECT id,name FROM `t` WHERE id = ?'', [JNum 7])]
   \<and> calls (snd (case_update (example_env JUndefined spaced_params write_then_fail) (Item []) initial_world))
     = [(JStr ''UPDATE `t` SET `a` = ?, `b` = ? WHERE id = ? AND s = ?'',
         [JNum 1, JNum 2, JStr ''7'', JStr ''active'']),
        (JStr ''SELECT id,name FROM `t` WHERE id = ? AND s = ?'', [JStr ''7'', JStr ''active''])]
   \<and> calls (snd (case_delete (example_env JUndefined spaced_params write_then_fail) (Item []) initial_world))
     = [(JStr ''DELETE FROM `t` WHERE id = ? AND s = ?'', [JStr ''7'', JStr ''active''])]"
proof -
  let ?env = "example_env JUndefined spaced_params write_then_fail"
  have table: "getNodeParameter ?env ''table'' = Inr (JStr ''t'')"
    by (simp add: example_env_def lookup_param_def spaced_params_def)
  have printed: "decimal (JStr ''t'')"
    by simp
  have params: "params_of ''whereParamsStr'' (JStr ([CHR 0xA0] @ ''7 , active ''))
                  = Inr [JStr ''7'', JStr ''active'']"
    by (simp add: params_of_def split_params_def trim_def is_space_def)
  note sent = statements_and_parameters [OF table printed, of "Item []" initial_world]
  have select: "calls (snd (case_select ?env (Item []) initial_world))
     = [(JStr ''SELECT id,name FROM `t` WHERE id = ? AND s = ? ORDER BY name ASC LIMIT 50'',
         [JStr ''7'', JStr ''active''])]"
    using sent [THEN conjunct1, rule_format,
      of "JStr ''id,name''" "JStr ''id = ? AND s = ?''" "JStr ([CHR 0xA0] @ ''7 , active '')"
         "JBool False" "JNum 50" "JStr ''name ASC''" "[JStr ''7'', JStr ''active'']"]
      params
    by (simp add: example_env_def lookup_param_def spaced_params_def initial_world_def js_or_def show_defs)
  have insert: "calls (snd (case_insert ?env (Item []) initial_world))
     = [(JStr ''INSERT INTO `t` (`a`, `b`) VALUES (?, ?)'', [JNum 1, JNum 2]),
        (JStr ''SELECT id,name FROM `t` WHERE id = ?'', [JNum 7])]"
    using sent [THEN conjunct2, THEN conjunct1, rule_format,
      of "JStr example_json" "JStr ''id,name''" "JObj [(''a'', JNum 1), (''b'', JNum 2)]"
         "[''a'', ''b'']" "[JNum 1, JNum 2]"]
    by (simp add: example_env_def lookup_param_def spaced_params_def initial_world_def js_or_def
          parse_data_def example_parse_def write_then_fail_def)
  have update: "calls (snd (case_update ?env (Item []) initial_world))
     = [(JStr ''UPDATE `t` SET `a` = ?, `b` = ? WHERE id = ? AND s = ?'',
         [JNum 1, JNum 2, JStr ''7'', JStr ''active'']),
        (JStr ''SELECT id,name FROM `t` WHERE id = ? AND s = ?'', [JStr ''7'', JStr ''active''])]"
    using sent [THEN conjunct2, THEN conjunct2, THEN conjunct1, rule_format,
      of "JStr example_json" "JStr ''id = ? AND s = ?''" "JStr ([CHR 0xA0] @ ''7 , active '')"
         "JStr ''id,name''" "JObj [(''a'', JNum 1), (''b'', JNum 2)]"
         "[''a'', ''b'']" "[JNum 1, JNum 2]" "[JStr ''7'', JStr ''active'']"]
      params
    by (simp add: example_env_def lookup_param_def spaced_params_def initial_world_def js_or_def
          parse_data_def example_parse_def write_then_fail_def)
  have delete: "calls (snd (case_delete ?env (Item []) initial_world))
     = [(JStr ''DELETE FROM `t` WHERE id = ? AND s = ?'', [JStr ''7'', JStr ''active''])]"
    using sent [THEN conjunct2, THEN conjunct2, THEN conjunct2, rule_format,
      of "JStr ''id = ? AND s = ?''" "JStr ([CHR 0xA0] @ ''7 , active '')" "[JStr ''7'', JStr ''active'']"]
      params
    by (simp add: example_env_def lookup_param_def spaced_params_def initial_world_def)
  from select insert update delete show ?thesis
    by (intro conjI)
qed

text \<open>
  C5. When the parameters are read and the write statement of an insert or of an update
  succeeds, and the select that follows it is attempted and fails, the case does not throw:
  it sends the two statements, logs one warning, and pushes the record made from the result
  of the write alone: \<open>inserted: {insertId, affectedRows}\<close> and \<open>rowCount\<close> for an insert,
  \<open>updated: []\<close>, \<open>rowCount\<close> (the affected rows) and \<open>changedRows\<close> for an update.
\<close>

theorem fetch_after_write_failure_swallowed:
  assumes table: "getNodeParameter env ''table'' = Inr table"
      and dataStr: "getNodeParameter env ''data'' = Inr dataStr"
      and returnFields: "getNodeParameter env ''returnFields'' = Inr returnFields0"
      and data: "parse_data env dataStr = Inr data"
      and keys: "object_keys data = Inr columns"
      and vals: "object_values data = Inr vals"
  shows "(\<forall>insertResult flds selectError.
            drv_execute env (calls w) (JStr (insert_text table columns vals)) vals = Inr (insertResult, flds)
          \<longrightarrow> (js_or returnFields0 (JStr ''*'') \<noteq> JStr ''*'' \<or> truthy (rows_insertId insertResult))
          \<longrightarrow> drv_execute env (calls w @ [(JStr (insert_text table columns vals), vals)])
                 (JStr (fetch_inserted_text (js_or returnFields0 (JStr ''*'')) table))
                 [rows_insertId insertResult] = Inl selectError
          \<longrightarrow> case_insert env item w
                = (Inr (),
                   w\<lparr>calls := calls w @ [(JStr (insert_text table columns vals), vals),
                                         (JStr (fetch_inserted_text (js_or returnFields0 (JStr ''*'')) table),
                                          [rows_insertId insertResult])],
                     logs := logs w @ [(''warn'', ''Could not fetch inserted row'')],
                     results := results w @
                       [JObj (spread (json item)
                          [(''inserted'', JObj [(''insertId'', rows_insertId insertResult),
                                                (''affectedRows'', rows_affectedRows insertResult)]),
                           (''rowCount'', rows_affectedRows insertResult)])]\<rparr>))
       \<and> (\<forall>wher whereParamsStr whereParams updateResult flds selectError.
            getNodeParameter env ''where'' = Inr wher
          \<longrightarrow> truthy wher
          \<longrightarrow> getNodeParameter env ''whereParams'' = Inr whereParamsStr
          \<longrightarrow> params_of ''whereParamsStr'' whereParamsStr = Inr whereParams
          \<longrightarrow> drv_execute env (calls w) (JStr (update_text table columns wher)) (vals @ whereParams)
                = Inr (updateResult, flds)
          \<longrightarrow> js_gt0 (rows_affectedRows updateResult)
          \<longrightarrow> drv_execute env (calls w @ [(JStr (update_text table columns wher), vals @ whereParams)])
                 (JStr (fetch_updated_text (js_or returnFields0 (JStr ''*'')) table wher)) whereParams
                = Inl selectError
          \<longrightarrow> case_update env item w
                = (Inr (),
                   w\<lparr>calls := calls w @ [(JStr (update_text table columns wher), vals @ whereParams),
                                         (JStr (fetch_updated_text (js_or returnFields0 (JStr ''*'')) table wher),
                                          whereParams)],
                     logs := logs w @ [(''warn'', ''Could not fetch updated rows'')],
                     results := results w @
                       [JObj (spread (json item)
                          [(''updated'', JArr []),
                           (''rowCount'', rows_affectedRows updateResult),
                           (''changedRows'', rows_changedRows updateResult)])]\<rparr>))"
proof (intro conjI allI impI)
  fix insertResult flds selectError
  assume "drv_execute env (calls w) (JStr (insert_text table columns vals)) vals = Inr (insertResult, flds)"
    and "js_or returnFields0 (JStr ''*'') \<noteq> JStr ''*'' \<or> truthy (rows_insertId insertResult)"
    and "drv_execute env (calls w @ [(JStr (insert_text table columns vals), vals)])
           (JStr (fetch_inserted_text (js_or returnFields0 (JStr ''*'')) table))
           [rows_insertId insertResult] = Inl selectError"
  then show "case_insert env item w
                = (Inr (),
                   w\<lparr>calls := calls w @ [(JStr (insert_text table columns vals), vals),
                                         (JStr (fetch_inserted_text (js_or returnFields0 (JStr ''*'')) table),
                                          [rows_insertId insertResult])],
                     logs := logs w @ [(''warn'', ''Could not fetch inserted row'')],
                     results := results w @
                       [JObj (spread (json item)
                          [(''inserted'', JObj [(''insertId'', rows_insertId insertResult),
                                                (''affectedRows'', rows_affectedRows insertResult)]),
                           (''rowCount'', rows_affectedRows insertResult)])]\<rparr>)"
    using table dataStr returnFields data keys vals
    unfolding case_insert_def fetch_inserted_def pool_execute_def results_push_def logger_def Let_def
    by auto
next
  fix wher whereParamsStr whereParams updateResult flds selectError
  assume "getNodeParameter env ''where'' = Inr wher" "truthy wher"
    and "getNodeParameter env ''whereParams'' = Inr whereParamsStr"
    and "params_of ''whereParamsStr'' whereParamsStr = Inr whereParams"
    and "drv_execute env (calls w) (JStr (update_text table columns wher)) (vals @ whereParams)
                = Inr (updateResult, flds)"
    and "js_gt0 (rows_affectedRows updateResult)"
    and "drv_execute env (calls w @ [(JStr (update_text table columns wher), vals @ whereParams)])
                 (JStr (fetch_updated_text (js_or returnFields0 (JStr ''*'')) table wher)) whereParams
                = Inl selectError"
  then show "case_update env item w
                = (Inr (),
                   w\<lparr>calls := calls w @ [(JStr (update_text table columns wher), vals @ whereParams),
                                         (JStr (fetch_updated_text (js_or returnFields0 (JStr ''*'')) table wher),
                                          whereParams)],
                     logs := logs w @ [(''warn'', ''Could not fetch updated rows'')],
                     results := results w @
                       [JObj (spread (json item)
                          [(''updated'', JArr []),
                           (''rowCount'', rows_affectedRows updateResult),
                           (''changedRows'', rows_changedRows updateResult)])]\<rparr>)"
    using table dataStr returnFields data keys vals
    unfolding case_update_def fetch_updated_def pool_execute_def results_push_def logger_def Let_def
    by auto
qed

theorem fetch_after_write_failure_swallowed_witness:
  "fst (case_insert (example_env JUndefined crud_params write_then_fail) (Item [(''x'', JNum 0)]) initial_world)
     = Inr ()
   \<and> results (snd (case_insert (example_env JUndefined crud_params write_then_fail)
                      (Item [(''x'', JNum 0)]) initial_world))
     = [JObj [(''x'', JNum 0),
              (''inserted'', JObj [(''insertId'', JNum 7), (''affectedRows'', JNum 1)]),
              (''rowCount'', JNum 1)]]
   \<and> logs (snd (case_insert (example_env JUndefined crud_params write_then_fail)
                   (Item [(''x'', JNum 0)]) initial_world))
     = [(''warn'', ''Could not fetch inserted row'')]
   \<and> fst (case_update (example_env JUndefined crud_params write_then_fail) (Item [(''x'', JNum 0)]) initial_world)
     = Inr ()
   \<and> results (snd (case_update (example_env JUndefined crud_params write_then_fail)
                      (Item [(''x'', JNum 0)]) initial_world))
     = [JObj [(''x'', JNum 0), (''updated'', JArr []), (''rowCount'', JNum 1), (''changedRows'', JNum 1)]]
   \<and> logs (snd (case_update (example_env JUndefined crud_params write_then_fail)
                   (Item [(''x'', JNum 0)]) initial_world))
     = [(''warn'', ''Could not fetch updated rows'')]"
proof -
  let ?env = "example_env JUndefined crud_params write_then_fail"
  let ?data = "JObj [(''a'', JNum 1), (''b'', JNum 2)]"
  let ?error = "JsError ''Error'' ''Unknown column'' (JStr ''ER_BAD_FIELD_ERROR'')"
  have table: "getNodeParameter ?env ''table'' = Inr (JStr ''t'')"
    and dataStr: "getNodeParameter ?env ''data'' = Inr (JStr example_json)"
    and returnFields: "getNodeParameter ?env ''returnFields'' = Inr (JStr ''*'')"
    by (simp_all add: lookup_param_def crud_params_def)
  have data: "parse_data ?env (JStr example_json) = Inr ?data"
    by (simp add: parse_data_def example_parse_def)
  have keys: "object_keys ?data = Inr [''a'', ''b'']"
    and vals: "object_values ?data = Inr [JNum 1, JNum 2]"
    by simp_all
  note both = fetch_after_write_failure_swallowed [OF table dataStr returnFields data keys vals,
      of initial_world "Item [(''x'', JNum 0)]"]
  have ins: "case_insert ?env (Item [(''x'', JNum 0)]) initial_world
      = (Inr (),
         initial_world\<lparr>calls := calls initial_world @ [(JStr (insert_text (JStr ''t'') [''a'', ''b''] [JNum 1, JNum 2]), [JNum 1, JNum 2]),
                                         (JStr (fetch_inserted_text (js_or (JStr ''*'') (JStr ''*'')) (JStr ''t'')),
                                          [rows_insertId (ResultHeader 0 1 7 [] 2 0 1)])],
                     logs := logs initial_world @ [(''warn'', ''Could not fetch inserted row'')],
                     results := results initial_world @
                       [JObj (spread (json (Item [(''x'', JNum 0)]))
                          [(''inserted'', JObj [(''insertId'', rows_insertId (ResultHeader 0 1 7 [] 2 0 1)),
                                                (''affectedRows'', rows_affectedRows (ResultHeader 0 1 7 [] 2 0 1))]),
                           (''rowCount'', rows_affectedRows (ResultHeader 0 1 7 [] 2 0 1))])]\<rparr>)"
    by (rule both [THEN conjunct1, rule_format, of _ None ?error])
       (simp_all add: write_then_fail_def initial_world_def)
  have upd: "case_update ?env (Item [(''x'', JNum 0)]) initial_world
      = (Inr (),
         initial_world\<lparr>calls := calls initial_world @ [(JStr (update_text (JStr ''t'') [''a'', ''b''] (JStr ''id = ?'')), [JNum 1, JNum 2] @ [JStr ''7'']),
                                         (JStr (fetch_updated_text (js_or (JStr ''*'') (JStr ''*'')) (JStr ''t'') (JStr ''id = ?'')),
                                          [JStr ''7''])],
                     logs := logs initial_world @ [(''warn'', ''Could not fetch updated rows'')],
                     results := results initial_world @
                       [JObj (spread (json (Item [(''x'', JNum 0)]))
                          [(''updated'', JArr []),
                           (''rowCount'', rows_affectedRows (ResultHeader 0 1 7 [] 2 0 1)),
                           (''changedRows'', rows_changedRows (ResultHeader 0 1 7 [] 2 0 1))])]\<rparr>)"
    by (rule both [THEN conjunct2, rule_format, of _ "JStr ''7''" _ _ None ?error])
       (simp_all add: write_then_fail_def initial_world_def lookup_param_def crud_params_def
          params_of_def split_params_def trim_def is_space_def)
  show ?thesis
    unfolding ins upd
    by (simp add: initial_world_def object_defs)
qed

text \<open>
  C8. When the form is complete and the driver error that reaches the outer \<open>catch\<close> of
  \<open>test\<close>, thrown by \<open>createConnection\<close> or inside the inner \<open>try\<close>, has the code
  \<open>ER_ACCESS_DENIED_ERROR\<close>, the result is \<open>success: false\<close> with the authentication message,
  which is not the generic message that starts with \<open>Connection failed: \<close>.
\<close>

theorem access_denied_is_authentication_failure:
  assumes valid: "truthy (get_prop data ''host'')" "truthy (get_prop data ''database'')"
                 "truthy (get_prop data ''user'')" "truthy (get_prop data ''password'')"
      and thrown: "createConnection drv (connection_config data) = Some error
                   \<or> (createConnection drv (connection_config data) = None
                       \<and> fst (test_query drv data) = Inl error)"
      and code: "err_code error = JStr ''ER_ACCESS_DENIED_ERROR''"
  shows "fst (test drv data)
           = Inr \<lparr>success = False, message = ''Authentication failed. Invalid username or password.''\<rparr>
       \<and> (case fst (test drv data) of
            Inl thrown \<Rightarrow> False
          | Inr result \<Rightarrow> take 19 (message result) \<noteq> ''Connection failed: '')"
proof -
  have "classify_error data error
          = \<lparr>success = False, message = ''Authentication failed. Invalid username or password.''\<rparr>"
    using code by (simp add: classify_error_def)
  moreover have "read_prop data ''host'' = Inr (get_prop data ''host'')"
    using truthy_prop_not_nullish [OF valid(1)] by (simp add: read_prop_def)
  then have "fst (test drv data) = Inr (classify_error data error)"
    using valid thrown by (auto simp: test_def split: prod.splits sum.splits)
  ultimately show ?thesis by simp
qed

theorem access_denied_is_authentication_failure_witness:
  "fst (test denying_driver example_credentials)
     = Inr \<lparr>success = False, message = ''Authentication failed. Invalid username or password.''\<rparr>
   \<and> (case fst (test denying_driver example_credentials) of
        Inl thrown \<Rightarrow> False
      | Inr result \<Rightarrow> take 19 (message result) \<noteq> ''Connection failed: '')"
  by (rule access_denied_is_authentication_failure
        [where error = "JsError ''Error'' ''Access denied for user'' (JStr ''ER_ACCESS_DENIED_ERROR'')"])
     (simp_all add: example_credentials_def denying_driver_def)

text \<open>
  C6, as stated, fails: with credentials that hold a host and no database, user or password,
  \<open>execute\<close> does not fail; it creates the pool, handing \<open>undefined\<close> to the driver for the
  three, and sends its statement.
\<close>

theorem host_only_credentials_accepted:
  "fst (execute host_only_env None initial_world)
     = Inr (JArr [JObj [(''main'', JArr [JObj [(''rows'', JArr [JObj [(''id'', JNum 1)]]), (''rowCount'', JNum 1)]])]])
   \<and> pool (snd (execute host_only_env None initial_world))
     = Some [(''host'', JStr ''db.local''), (''port'', JNum 3306), (''database'', JUndefined),
             (''user'', JUndefined), (''password'', JUndefined), (''ssl'', JBool False),
             (''waitForConnections'', JBool True), (''connectionLimit'', JNum 10),
             (''queueLimit'', JNum 0), (''connectTimeout'', JNum 10000)]
   \<and> calls (snd (execute host_only_env None initial_world))
     = [(JStr ''SELECT * FROM `t` LIMIT 50'', [])]"
  by (simp add: execute_def host_only_env_def example_env_def read_credentials_def with_pool_def
        pool_end_def createPool_def input_items_def items_to_process_def js_coalesce_def get_prop_opt_def
        executor_defs example_defs select_text_def show_defs object_defs)

text \<open>
  C6, amended. Take the credentials that the host resolves. When they are absent or have no
  host, \<open>execute\<close> throws \<open>Failed to get credentials: ...\<close> before the pool is created and
  before any statement is sent. Otherwise, once the operation is read, \<open>execute\<close> creates the
  pool, whatever the database, the user and the password are: the pool is configured with
  the host, the database, the user and the password just as the credentials hold them, a
  missing one as \<open>undefined\<close>. The credential test checks the four fields: for a form that is
  not \<open>null\<close> or \<open>undefined\<close>, when the host, the database, the user or the password is
  missing, it returns \<open>success: false\<close> with its message and asks nothing of the driver; for
  a form that is \<open>null\<close> or \<open>undefined\<close> it throws a TypeError.
\<close>

theorem missing_credentials:
  assumes "getCredentials env ''mysqlDb'' = Inr credentials"
  shows "(if \<not> truthy credentials \<or> \<not> truthy (get_prop credentials ''host'')
          then fst (execute env main w0)
                 = Inl (new_Error (''Failed to get credentials: '' @ credentials_required))
             \<and> pool (snd (execute env main w0)) = pool w0
             \<and> calls (snd (execute env main w0)) = calls w0
          else (\<forall>operation. getNodeParameter env ''operation'' = Inr operation \<longrightarrow>
                  (\<exists>config. pool (snd (execute env main w0)) = Some config
                     \<and> map_of config ''host'' = Some (get_prop credentials ''host'')
                     \<and> map_of config ''database'' = Some (get_prop credentials ''database'')
                     \<and> map_of config ''user'' = Some (get_prop credentials ''user'')
                     \<and> map_of config ''password'' = Some (get_prop credentials ''password''))))
       \<and> (\<forall>drv data.
             \<not> nullish data
           \<and> (\<not> truthy (get_prop data ''host'') \<or> \<not> truthy (get_prop data ''database'')
              \<or> \<not> truthy (get_prop data ''user'') \<or> \<not> truthy (get_prop data ''password''))
           \<longrightarrow> test drv data
                 = (Inr \<lparr>success = False, message = ''Host, database, user, and password are required''\<rparr>, []))
       \<and> (\<forall>drv data. nullish data \<longrightarrow>
             (\<exists>thrown. test drv data = (Inl thrown, []) \<and> err_name thrown = ''TypeError''))"
proof (intro conjI allI impI)
  show "if \<not> truthy credentials \<or> \<not> truthy (get_prop credentials ''host'')
          then fst (execute env main w0)
                 = Inl (new_Error (''Failed to get credentials: '' @ credentials_required))
             \<and> pool (snd (execute env main w0)) = pool w0
             \<and> calls (snd (execute env main w0)) = calls w0
          else (\<forall>operation. getNodeParameter env ''operation'' = Inr operation \<longrightarrow>
                  (\<exists>config. pool (snd (execute env main w0)) = Some config
                     \<and> map_of config ''host'' = Some (get_prop credentials ''host'')
                     \<and> map_of config ''database'' = Some (get_prop credentials ''database'')
                     \<and> map_of config ''user'' = Some (get_prop credentials ''user'')
                     \<and> map_of config ''password'' = Some (get_prop credentials ''password'')))"
  proof (cases "\<not> truthy credentials \<or> \<not> truthy (get_prop credentials ''host'')")
    case True
    then show ?thesis
      using assms
      by (auto simp: execute_def read_credentials_def logger_def new_Error_def Let_def)
  next
    case False
    then show ?thesis
      using assms
      by (auto simp: execute_def read_credentials_def Let_def with_pool_pool)
  qed
next
  fix drv data
  assume "\<not> nullish data
           \<and> (\<not> truthy (get_prop data ''host'') \<or> \<not> truthy (get_prop data ''database'')
              \<or> \<not> truthy (get_prop data ''user'') \<or> \<not> truthy (get_prop data ''password''))"
  then show "test drv data
                 = (Inr \<lparr>success = False, message = ''Host, database, user, and password are required''\<rparr>, [])"
    by (auto simp: test_def read_prop_def)
next
  fix drv data
  assume "nullish data"
  then show "\<exists>thrown. test drv data = (Inl thrown, []) \<and> err_name thrown = ''TypeError''"
    by (simp add: test_def read_prop_def)
qed

theorem missing_credentials_witness:
  "fst (execute (host_only_env\<lparr>getCredentials := (\<lambda>name. Inr (JObj [(''database'', JStr ''shop'')]))\<rparr>)
          None initial_world)
     = Inl (new_Error (''Failed to get credentials: '' @ credentials_required))
   \<and> pool (snd (execute (host_only_env\<lparr>getCredentials := (\<lambda>name. Inr (JObj [(''database'', JStr ''shop'')]))\<rparr>)
                   None initial_world)) = None
   \<and> calls (snd (execute (host_only_env\<lparr>getCredentials := (\<lambda>name. Inr (JObj [(''database'', JStr ''shop'')]))\<rparr>)
                   None initial_world)) = []
   \<and> (\<exists>config. pool (snd (execute host_only_env None initial_world)) = Some config
         \<and> map_of config ''host'' = Some (JStr ''db.local'')
         \<and> map_of config ''database'' = Some JUndefined
         \<and> map_of config ''user'' = Some JUndefined
         \<and> map_of config ''password'' = Some JUndefined)
   \<and> test denying_driver (JObj [(''host'', JStr ''db.local'')])
       = (Inr \<lparr>success = False, message = ''Host, database, user, and password are required''\<rparr>, [])
   \<and> (\<exists>thrown. test denying_driver JNull = (Inl thrown, []) \<and> err_name thrown = ''TypeError'')"
proof -
  let ?none = "host_only_env\<lparr>getCredentials := (\<lambda>name. Inr (JObj [(''database'', JStr ''shop'')]))\<rparr>"
  have none: "getCredentials ?none ''mysqlDb'' = Inr (JObj [(''database'', JStr ''shop'')])"
    by simp
  have host: "getCredentials host_only_env ''mysqlDb'' = Inr (JObj [(''host'', JStr ''db.local'')])"
    by (simp add: host_only_env_def)
  have op: "getNodeParameter host_only_env ''operation'' = Inr (JStr ''select'')"
    by (simp add: host_only_env_def lookup_param_def select_params_def)
  note refused = missing_credentials [OF none, of None initial_world, THEN conjunct1]
  note accepted = missing_credentials [OF host, of None initial_world, THEN conjunct1]
  note form = missing_credentials [OF host, of None initial_world, THEN conjunct2, THEN conjunct1,
      rule_format, of "JObj [(''host'', JStr ''db.local'')]" denying_driver]
  note thrown = missing_credentials [OF host, of None initial_world, THEN conjunct2, THEN conjunct2,
      rule_format, of JNull denying_driver]
  have a: "fst (execute ?none None initial_world)
             = Inl (new_Error (''Failed to get credentials: '' @ credentials_required))
           \<and> pool (snd (execute ?none None initial_world)) = None
           \<and> calls (snd (execute ?none None initial_world)) = []"
    using refused by (simp add: initial_world_def)
  have b: "\<exists>config. pool (snd (execute host_only_env None initial_world)) = Some config
         \<and> map_of config ''host'' = Some (JStr ''db.local'')
         \<and> map_of config ''database'' = Some JUndefined
         \<and> map_of config ''user'' = Some JUndefined
         \<and> map_of config ''password'' = Some JUndefined"
    using accepted op by simp
  have c: "test denying_driver (JObj [(''host'', JStr ''db.local'')])
       = (Inr \<lparr>success = False, message = ''Host, database, user, and password are required''\<rparr>, [])"
    using form by simp
  have d: "\<exists>thrown. test denying_driver JNull = (Inl thrown, []) \<and> err_name thrown = ''TypeError''"
    using thrown by simp
  from a b c d show ?thesis
    by (intro conjI) (simp_all only:)
qed

text \<open>
  C4, as stated, fails: in a batch of two items of which the second alone fails, under
  continue-on-fail, both output records carry \<open>error: true\<close> with \<open>errorMessage\<close>, \<open>errorCode\<close>
  and \<open>errorDetails\<close> when the first item came in with these fields (as the error record of
  an earlier node does): the record of a success keeps the fields of its item.
\<close>

theorem error_field_inherited:
  "fst (execute (example_env continue_on_fail select_params second_fails)
          (Some [[Item [(''error'', JBool True), (''errorMessage'', JStr ''upstream''),
                        (''errorCode'', JStr ''E_UP''), (''errorDetails'', JStr ''Error: upstream'')],
                  Item []]]) initial_world)
     = Inr (JArr [JObj [(''main'', JArr
         [JObj [(''error'', JBool True), (''errorMessage'', JStr ''upstream''),
                (''errorCode'', JStr ''E_UP''), (''errorDetails'', JStr ''Error: upstream''),
                (''rows'', JArr [JObj [(''id'', JNum 1)]]), (''rowCount'', JNum 1)],
          JObj [(''error'', JBool True), (''errorMessage'', JStr ''Table is locked''),
                (''errorCode'', JStr ''ER_LOCK_WAIT_TIMEOUT''),
                (''errorDetails'', JStr ''Error: Table is locked'')]])]])"
  by (simp add: execute_def example_env_def read_credentials_def with_pool_def
        pool_end_def createPool_def input_items_def items_to_process_def js_coalesce_def get_prop_opt_def
        executor_defs example_defs select_text_def show_defs object_defs error_toString_def Let_def)

text \<open>
  C4, amended. Take a batch in which the items before \<open>x\<close> succeed, \<open>x\<close> fails, and the
  items after \<open>x\<close> succeed. Under continue-on-fail, and when \<open>pool.end()\<close> does not throw,
  \<open>execute\<close> returns one record per item, in order: at the position of \<open>x\<close> the error
  record, with \<open>error: true\<close>, \<open>errorMessage\<close>, \<open>errorCode\<close> and \<open>errorDetails\<close> from the
  error; at every other position the record of a success, whose four error fields are those
  its item came in with (none, if the item had none). Without continue-on-fail, \<open>execute\<close>
  throws, in the state reached when \<open>x\<close> failed: no later item is processed, no record is
  returned, and \<open>pool.end()\<close> has been called. It throws the error of \<open>x\<close>, or that of
  \<open>pool.end()\<close> if it throws too.
\<close>

theorem one_failing_item:
  assumes cof: "continueOnFail = js_coalesce (get_prop_opt (settings env) ''continueOnFail'') (JBool False)"
      and creds: "read_credentials env
                    (logger ''info'' ''[MySQL] Settings object:''
                       (logger ''info'' (''[MySQL] continueOnFail setting: '' @ to_str continueOnFail)
                          (w0\<lparr>results := []\<rparr>))) = (Inr config, w)"
      and op: "getNodeParameter env ''operation'' = Inr operation"
      and items: "items_to_process (input_items main) = pre @ x # post"
      and pre: "for_items env (JBool False) operation pre (createPool config w) = (Inr (), w1)"
      and fail: "run_operation env operation x w1 = (Inl e, w2)"
      and post: "for_items env (JBool False) operation post (results_push (error_record x e) w2) = (Inr (), w3)"
  shows "(truthy continueOnFail \<longrightarrow> drv_end env (calls w3) = None \<longrightarrow>
            (\<exists>rs_pre rs_post.
               execute env main w0
                 = (Inr (JArr [JObj [(''main'', JArr (rs_pre @ error_record x e # rs_post))]]),
                    w3\<lparr>pool_ended := True\<rparr>)
               \<and> list_all2 (\<lambda>item r. (\<exists>props. map fst props = success_fields operation
                                              \<and> r = JObj (spread (json item) props))
                                      \<and> (\<forall>k \<in> set error_fields. get_field r k = map_of (json item) k)) pre rs_pre
               \<and> list_all2 (\<lambda>item r. (\<exists>props. map fst props = success_fields operation
                                              \<and> r = JObj (spread (json item) props))
                                      \<and> (\<forall>k \<in> set error_fields. get_field r k = map_of (json item) k)) post rs_post
               \<and> get_field (error_record x e) ''error'' = Some (JBool True)
               \<and> get_field (error_record x e) ''errorMessage'' = Some (JStr (err_message e))
               \<and> get_field (error_record x e) ''errorCode'' = Some (err_code e)
               \<and> get_field (error_record x e) ''errorDetails'' = Some (JStr (error_toString e))))
       \<and> (\<not> truthy continueOnFail \<longrightarrow>
            execute env main w0
              = (Inl (case drv_end env (calls w2) of None \<Rightarrow> e | Some error \<Rightarrow> error),
                 w2\<lparr>pool_ended := True\<rparr>))"
proof (intro conjI impI)
  have run: "execute env main w0
               = with_pool env continueOnFail operation config (pre @ x # post) w"
    using creds op items unfolding execute_def Let_def cof [symmetric]
    by (simp add: await_def)
  have empty: "results (createPool config w) = []"
    using read_credentials_results [OF creds] by (simp add: createPool_def logger_def)
  note loop = one_failure_loop [OF pre fail post]
  {
    assume c: "truthy continueOnFail" and ends: "drv_end env (calls w3) = None"
    from loop(3) empty obtain rs_pre rs_post
      where res: "results w3 = rs_pre @ error_record x e # rs_post"
        and all1: "list_all2 (\<lambda>item r. \<exists>props. map fst props = success_fields operation
                                    \<and> r = JObj (spread (json item) props)) pre rs_pre"
        and all3: "list_all2 (\<lambda>item r. \<exists>props. map fst props = success_fields operation
                                    \<and> r = JObj (spread (json item) props)) post rs_post"
      by auto
    have strengthen: "list_all2 (\<lambda>item r. (\<exists>props. map fst props = success_fields operation
                                              \<and> r = JObj (spread (json item) props))
                                      \<and> (\<forall>k \<in> set error_fields. get_field r k = map_of (json item) k)) xs rs"
      if "list_all2 (\<lambda>item r. \<exists>props. map fst props = success_fields operation
                                    \<and> r = JObj (spread (json item) props)) xs rs" for xs rs
      using that by (rule list_all2_mono) (auto simp: success_record_error_field)
    have "execute env main w0
            = (Inr (JArr [JObj [(''main'', JArr (rs_pre @ error_record x e # rs_post))]]),
               w3\<lparr>pool_ended := True\<rparr>)"
      using run loop(1) [OF c] ends res by (simp add: with_pool_def pool_end_def)
    with strengthen [OF all1] strengthen [OF all3]
    show "\<exists>rs_pre rs_post.
               execute env main w0
                 = (Inr (JArr [JObj [(''main'', JArr (rs_pre @ error_record x e # rs_post))]]),
                    w3\<lparr>pool_ended := True\<rparr>)
               \<and> list_all2 (\<lambda>item r. (\<exists>props. map fst props = success_fields operation
                                              \<and> r = JObj (spread (json item) props))
                                      \<and> (\<forall>k \<in> set error_fields. get_field r k = map_of (json item) k)) pre rs_pre
               \<and> list_all2 (\<lambda>item r. (\<exists>props. map fst props = success_fields operation
                                              \<and> r = JObj (spread (json item) props))
                                      \<and> (\<forall>k \<in> set error_fields. get_field r k = map_of (json item) k)) post rs_post
               \<and> get_field (error_record x e) ''error'' = Some (JBool True)
               \<and> get_field (error_record x e) ''errorMessage'' = Some (JStr (err_message e))
               \<and> get_field (error_record x e) ''errorCode'' = Some (err_code e)
               \<and> get_field (error_record x e) ''errorDetails'' = Some (JStr (error_toString e))"
      by (intro exI [of _ rs_pre] exI [of _ rs_post]) (simp add: error_record_fields)
  }
  {
    assume c: "\<not> truthy continueOnFail"
    show "execute env main w0
              = (Inl (case drv_end env (calls w2) of None \<Rightarrow> e | Some error \<Rightarrow> error),
                 w2\<lparr>pool_ended := True\<rparr>)"
      using run loop(2) [OF c] by (simp add: with_pool_def pool_end_def split: option.splits)
  }
qed

theorem one_failing_item_witness:
  "(\<exists>rs. fst (execute (example_env continue_on_fail select_params second_fails)
                (Some [[Item [(''a'', JNum 1)], Item [(''b'', JNum 2)], Item [(''c'', JNum 3)]]]) initial_world)
            = Inr (JArr [JObj [(''main'', JArr rs)]])
          \<and> length rs = 3
          \<and> rs ! 1 = error_record (Item [(''b'', JNum 2)])
                        (JsError ''Error'' ''Table is locked'' (JStr ''ER_LOCK_WAIT_TIMEOUT'')))
   \<and> fst (execute (example_env JUndefined select_params second_fails)
            (Some [[Item [(''a'', JNum 1)], Item [(''b'', JNum 2)], Item [(''c'', JNum 3)]]]) initial_world)
       = Inl (JsError ''Error'' ''Table is locked'' (JStr ''ER_LOCK_WAIT_TIMEOUT''))
   \<and> pool_ended (snd (execute (example_env JUndefined select_params second_fails)
            (Some [[Item [(''a'', JNum 1)], Item [(''b'', JNum 2)], Item [(''c'', JNum 3)]]]) initial_world))"
proof -
  let ?main = "Some [[Item [(''a'', JNum 1)], Item [(''b'', JNum 2)], Item [(''c'', JNum 3)]]]"
  let ?e = "JsError ''Error'' ''Table is locked'' (JStr ''ER_LOCK_WAIT_TIMEOUT'')"
  let ?config = "[(''host'', JStr ''db.local''), (''port'', JNum 3306), (''database'', JStr ''shop''),
                  (''user'', JStr ''app''), (''password'', JStr ''secret''), (''ssl'', JBool False),
                  (''waitForConnections'', JBool True), (''connectionLimit'', JNum 10),
                  (''queueLimit'', JNum 0), (''connectTimeout'', JNum 10000)]"
  have items: "items_to_process (input_items ?main)
                 = [Item [(''a'', JNum 1)]] @ Item [(''b'', JNum 2)] # [Item [(''c'', JNum 3)]]"
    by (simp add: items_to_process_def input_items_def)

  let ?envC = "example_env continue_on_fail select_params second_fails"
  let ?loggedC = "logger ''info'' ''[MySQL] Settings object:''
                 (logger ''info'' (''[MySQL] continueOnFail setting: '' @ to_str (JBool True))
                    (initial_world\<lparr>results := []\<rparr>))"
  let ?wC = "logger ''info'' ''Using MySQL credentials from authentication'' ?loggedC"
  let ?w1C = "select_sent (results_push (select_record (Item [(''a'', JNum 1)])) (createPool ?config ?wC))"
  let ?w2C = "select_sent ?w1C"
  let ?w3C = "select_sent (results_push (select_record (Item [(''c'', JNum 3)]))
                      (results_push (error_record (Item [(''b'', JNum 2)]) ?e) ?w2C))"
  have cofC: "JBool True = js_coalesce (get_prop_opt (settings ?envC) ''continueOnFail'') (JBool False)"
    by (simp add: continue_on_fail_def js_coalesce_def get_prop_opt_def)
  have credsC: "read_credentials ?envC ?loggedC = (Inr ?config, ?wC)"
    by (simp add: read_credentials_def example_defs js_or_def js_coalesce_def get_prop_opt_def)
  have opC: "getNodeParameter ?envC ''operation'' = Inr (JStr ''select'')"
    by (simp add: example_defs)
  have preC: "for_items ?envC (JBool False) (JStr ''select'') [Item [(''a'', JNum 1)]] (createPool ?config ?wC)
                = (Inr (), ?w1C)"
    by (simp add: process_item_def select_succeeds createPool_def logger_def initial_world_def)
  have failC: "run_operation ?envC (JStr ''select'') (Item [(''b'', JNum 2)]) ?w1C = (Inl ?e, ?w2C)"
    by (rule select_fails)
       (simp add: select_sent_def results_push_def createPool_def logger_def initial_world_def)
  have postC: "for_items ?envC (JBool False) (JStr ''select'') [Item [(''c'', JNum 3)]]
               (results_push (error_record (Item [(''b'', JNum 2)]) ?e) ?w2C) = (Inr (), ?w3C)"
    by (simp add: process_item_def select_succeeds select_sent_def results_push_def createPool_def
          logger_def initial_world_def)
  note thmC = one_failing_item [OF cofC credsC opC items preC failC postC]

  let ?envA = "example_env JUndefined select_params second_fails"
  let ?loggedA = "logger ''info'' ''[MySQL] Settings object:''
                 (logger ''info'' (''[MySQL] continueOnFail setting: '' @ to_str (JBool False))
                    (initial_world\<lparr>results := []\<rparr>))"
  let ?wA = "logger ''info'' ''Using MySQL credentials from authentication'' ?loggedA"
  let ?w1A = "select_sent (results_push (select_record (Item [(''a'', JNum 1)])) (createPool ?config ?wA))"
  let ?w2A = "select_sent ?w1A"
  let ?w3A = "select_sent (results_push (select_record (Item [(''c'', JNum 3)]))
                      (results_push (error_record (Item [(''b'', JNum 2)]) ?e) ?w2A))"
  have cofA: "JBool False = js_coalesce (get_prop_opt (settings ?envA) ''continueOnFail'') (JBool False)"
    by (simp add: continue_on_fail_def js_coalesce_def get_prop_opt_def)
  have credsA: "read_credentials ?envA ?loggedA = (Inr ?config, ?wA)"
    by (simp add: read_credentials_def example_defs js_or_def js_coalesce_def get_prop_opt_def)
  have opA: "getNodeParameter ?envA ''operation'' = Inr (JStr ''select'')"
    by (simp add: example_defs)
  have preA: "for_items ?envA (JBool False) (JStr ''select'') [Item [(''a'', JNum 1)]] (createPool ?config ?wA)
                = (Inr (), ?w1A)"
    by (simp add: process_item_def select_succeeds createPool_def logger_def initial_world_def)
  have failA: "run_operation ?envA (JStr ''select'') (Item [(''b'', JNum 2)]) ?w1A = (Inl ?e, ?w2A)"
    by (rule select_fails)
       (simp add: select_sent_def results_push_def createPool_def logger_def initial_world_def)
  have postA: "for_items ?envA (JBool False) (JStr ''select'') [Item [(''c'', JNum 3)]]
               (results_push (error_record (Item [(''b'', JNum 2)]) ?e) ?w2A) = (Inr (), ?w3A)"
    by (simp add: process_item_def select_succeeds select_sent_def results_push_def createPool_def
          logger_def initial_world_def)
  note thmA = one_failing_item [OF cofA credsA opA items preA failA postA]

  have ends: "drv_end ?envC (calls ?w3C) = None"
    by simp
  have yes: "truthy (JBool True)" and no: "\<not> truthy (JBool False)"
    by simp_all
  have continued: "\<exists>rs. fst (execute ?envC ?main initial_world) = Inr (JArr [JObj [(''main'', JArr rs)]])
          \<and> length rs = 3 \<and> rs ! 1 = error_record (Item [(''b'', JNum 2)]) ?e"
    by (rule three_records [OF thmC [THEN conjunct1, rule_format, OF yes ends]])
  have aborted: "execute ?envA ?main initial_world
                   = (Inl (case drv_end ?envA (calls ?w2A) of None \<Rightarrow> ?e | Some error \<Rightarrow> error),
                      ?w2A\<lparr>pool_ended := True\<rparr>)"
    by (rule thmA [THEN conjunct2, rule_format, OF no])
  have "fst (execute ?envA ?main initial_world) = Inl ?e"
    and "pool_ended (snd (execute ?envA ?main initial_world))"
    unfolding aborted by simp_all
  with continued show ?thesis
    by (intro conjI)
qed

end
